theory Spec2Isabelle
  imports Complex_Main "HOL-Library.Word" "HOL-Library.Signed_Division"
begin

unbundle bit_operations_syntax

chapter \<open>TheXTech: world loading and the 3DS render backend\<close>

text \<open>
  A shallow embedding of two parts of the engine.  The first is \<open>OpenWorld\<close> with
  \<open>ClearWorld\<close>, which copy a parsed world file into the engine's fixed arrays.  The second
  is the 3DS backend of the renderer, render_3ds.cpp: lazy texture loading with its size
  sidecar and overflow bands, the frame flag, target selection, the composition in
  \<open>repaint\<close> and the sprite blit \<open>minport_RenderTexturePrivate\<close>.  Definitions come first,
  in the order of the sources; the proofs follow.
\<close>

section \<open>World loading: OpenWorld and ClearWorld\<close>

text \<open>
  The world file is parsed by PGE-FL into a \<open>WorldData\<close> value; OpenWorld copies its
  entity lists into the engine's fixed arrays Tile, Scene, WorldPath, WorldLevel and
  WorldMusic, which are indexed from 1 up to maxTiles, maxScenes, maxWorldPaths,
  maxWorldLevels and maxWorldMusic.  These five constants and the size tables TileWidth,
  TileHeight, SceneWidth, SceneHeight are declared in globals.h and are parameters here.
  Coordinates are whole numbers stored in doubles; they are integers in the model.
  The ids and the warp number of the parsed file are wider than \<open>int\<close>; the conversions
  \<open>int(t.id)\<close> keep the low 32 bits, signed.
\<close>

definition s32 :: "int \<Rightarrow> int" where
  "s32 x = signed_take_bit 31 x"

record limits =
  maxTiles :: int
  maxScenes :: int
  maxWorldPaths :: int
  maxWorldLevels :: int
  maxWorldMusic :: int

record tables =
  TileWidth :: "int \<Rightarrow> int"
  TileHeight :: "int \<Rightarrow> int"
  SceneWidth :: "int \<Rightarrow> int"
  SceneHeight :: "int \<Rightarrow> int"

record Location_t =
  loc_X :: int
  loc_Y :: int
  loc_Width :: int
  loc_Height :: int

record Tile_t =
  tile_Location :: Location_t
  tile_Type :: int

record Scene_t =
  scene_Location :: Location_t
  scene_Type :: int
  scene_Active :: bool

record WorldPath_t =
  path_Location :: Location_t
  path_Type :: int
  path_Active :: bool

record WorldLevel_t =
  level_Location :: Location_t
  level_Type :: int
  level_FileName :: string
  level_LevelName :: string
  level_LevelExit :: "int \<Rightarrow> int"
  level_StartWarp :: int
  level_Visible :: bool
  level_Active :: bool
  level_Path :: bool
  level_Start :: bool
  level_WarpX :: int
  level_WarpY :: int
  level_Path2 :: bool

record WorldMusic_t =
  music_Location :: Location_t
  music_Type :: int

text \<open>The parsed input: one record per entity kind, as OpenWorld reads their fields.\<close>

record WorldTerrainTile =
  wt_x :: int
  wt_y :: int
  wt_id :: int

record WorldScenery =
  ws_x :: int
  ws_y :: int
  ws_id :: int

record WorldPathTile =
  wp_x :: int
  wp_y :: int
  wp_id :: int

record WorldLevelTile =
  wl_x :: int
  wl_y :: int
  wl_id :: int
  wl_lvlfile :: string
  wl_title :: string
  wl_top_exit :: int
  wl_left_exit :: int
  wl_bottom_exit :: int
  wl_right_exit :: int
  wl_entertowarp :: int
  wl_alwaysVisible :: bool
  wl_pathbg :: bool
  wl_gamestart :: bool
  wl_gotox :: int
  wl_gotoy :: int
  wl_bigpathbg :: bool

record WorldMusicBox =
  wm_x :: int
  wm_y :: int
  wm_id :: int

record WorldData =
  wld_tiles :: "WorldTerrainTile list"
  wld_scenery :: "WorldScenery list"
  wld_paths :: "WorldPathTile list"
  wld_levels :: "WorldLevelTile list"
  wld_music :: "WorldMusicBox list"

datatype world_array = ATile | AScene | AWorldPath | AWorldLevel | AWorldMusic

text \<open>
  The part of the global state OpenWorld touches through these arrays.  Every assignment to
  an array entry is also recorded in \<open>writes\<close>, with the array and the index, in the
  order the code performs them.
\<close>

record world =
  Tile :: "int \<Rightarrow> Tile_t"
  Scene :: "int \<Rightarrow> Scene_t"
  WorldPath :: "int \<Rightarrow> WorldPath_t"
  WorldLevel :: "int \<Rightarrow> WorldLevel_t"
  WorldMusic :: "int \<Rightarrow> WorldMusic_t"
  numTiles :: int
  numScenes :: int
  numWorldPaths :: int
  numWorldLevels :: int
  numWorldMusic :: int
  writes :: "(world_array \<times> int) list"

definition arr_max :: "limits \<Rightarrow> world_array \<Rightarrow> int" where
  "arr_max L a = (case a of ATile \<Rightarrow> maxTiles L | AScene \<Rightarrow> maxScenes L
     | AWorldPath \<Rightarrow> maxWorldPaths L | AWorldLevel \<Rightarrow> maxWorldLevels L
     | AWorldMusic \<Rightarrow> maxWorldMusic L)"

definition blankLocation :: Location_t where
  "blankLocation = \<lparr>loc_X = 0, loc_Y = 0, loc_Width = 0, loc_Height = 0\<rparr>"

definition blankTile :: Tile_t where
  "blankTile = \<lparr>tile_Location = blankLocation, tile_Type = 0\<rparr>"

definition blankScene :: Scene_t where
  "blankScene = \<lparr>scene_Location = blankLocation, scene_Type = 0, scene_Active = False\<rparr>"

definition blankPath :: WorldPath_t where
  "blankPath = \<lparr>path_Location = blankLocation, path_Type = 0, path_Active = False\<rparr>"

definition blankLevel :: WorldLevel_t where
  "blankLevel = \<lparr>level_Location = blankLocation, level_Type = 0, level_FileName = [],
     level_LevelName = [], level_LevelExit = (\<lambda>_. 0), level_StartWarp = 0,
     level_Visible = False, level_Active = False, level_Path = False, level_Start = False,
     level_WarpX = 0, level_WarpY = 0, level_Path2 = False\<rparr>"

definition blankMusic :: WorldMusic_t where
  "blankMusic = \<lparr>music_Location = blankLocation, music_Type = 0\<rparr>"

definition set_Tile :: "int \<Rightarrow> Tile_t \<Rightarrow> world \<Rightarrow> world" where
  "set_Tile i v s = s\<lparr>Tile := (Tile s)(i := v), writes := writes s @ [(ATile, i)]\<rparr>"

definition set_Scene :: "int \<Rightarrow> Scene_t \<Rightarrow> world \<Rightarrow> world" where
  "set_Scene i v s = s\<lparr>Scene := (Scene s)(i := v), writes := writes s @ [(AScene, i)]\<rparr>"

definition set_WorldPath :: "int \<Rightarrow> WorldPath_t \<Rightarrow> world \<Rightarrow> world" where
  "set_WorldPath i v s =
     s\<lparr>WorldPath := (WorldPath s)(i := v), writes := writes s @ [(AWorldPath, i)]\<rparr>"

definition set_WorldLevel :: "int \<Rightarrow> WorldLevel_t \<Rightarrow> world \<Rightarrow> world" where
  "set_WorldLevel i v s =
     s\<lparr>WorldLevel := (WorldLevel s)(i := v), writes := writes s @ [(AWorldLevel, i)]\<rparr>"

definition set_WorldMusic :: "int \<Rightarrow> WorldMusic_t \<Rightarrow> world \<Rightarrow> world" where
  "set_WorldMusic i v s =
     s\<lparr>WorldMusic := (WorldMusic s)(i := v), writes := writes s @ [(AWorldMusic, i)]\<rparr>"

text \<open>ClearWorld: each array is blanked from 1 to its current count, then the counts are reset.\<close>

definition ClearWorld :: "world \<Rightarrow> world" where
  "ClearWorld s0 =
    (let s1 = fold (\<lambda>A s. set_Tile A blankTile s) [1 .. numTiles s0] s0;
         s2 = fold (\<lambda>A s. set_WorldPath A blankPath s) [1 .. numWorldPaths s1] s1;
         s3 = fold (\<lambda>A s. set_Scene A blankScene s) [1 .. numScenes s2] s2;
         s4 = fold (\<lambda>A s. set_WorldLevel A blankLevel s) [1 .. numWorldLevels s3] s3;
         s5 = fold (\<lambda>A s. set_WorldMusic A blankMusic s) [1 .. numWorldMusic s4] s4
     in s5\<lparr>numTiles := 0, numWorldPaths := 0, numScenes := 0, numWorldLevels := 0,
           numWorldMusic := 0\<rparr>)"

text \<open>
  The five loading loops.  Each iteration increments the counter first; when the counter
  has passed the maximum it is set back to the maximum and the loop is left, otherwise the
  entry at the counter is filled in.
\<close>

fun load_tiles :: "limits \<Rightarrow> tables \<Rightarrow> WorldTerrainTile list \<Rightarrow> world \<Rightarrow> world" where
  "load_tiles L T [] s = s"
| "load_tiles L T (t # ts) s =
    (let n = numTiles s + 1 in
     if n > maxTiles L then s\<lparr>numTiles := maxTiles L\<rparr>
     else load_tiles L T ts
       (set_Tile n
          \<lparr>tile_Location = \<lparr>loc_X = wt_x t, loc_Y = wt_y t, loc_Width = TileWidth T (s32 (wt_id t)),
                            loc_Height = TileHeight T (s32 (wt_id t))\<rparr>,
           tile_Type = s32 (wt_id t)\<rparr>
          (s\<lparr>numTiles := n\<rparr>)))"

fun load_scenery :: "limits \<Rightarrow> tables \<Rightarrow> WorldScenery list \<Rightarrow> world \<Rightarrow> world" where
  "load_scenery L T [] s = s"
| "load_scenery L T (c # cs) s =
    (let n = numScenes s + 1 in
     if n > maxScenes L then s\<lparr>numScenes := maxScenes L\<rparr>
     else load_scenery L T cs
       (set_Scene n
          \<lparr>scene_Location = \<lparr>loc_X = ws_x c, loc_Y = ws_y c, loc_Width = SceneWidth T (s32 (ws_id c)),
                             loc_Height = SceneHeight T (s32 (ws_id c))\<rparr>,
           scene_Type = s32 (ws_id c), scene_Active = True\<rparr>
          (s\<lparr>numScenes := n\<rparr>)))"

fun load_paths :: "limits \<Rightarrow> WorldPathTile list \<Rightarrow> world \<Rightarrow> world" where
  "load_paths L [] s = s"
| "load_paths L (p # ps) s =
    (let n = numWorldPaths s + 1 in
     if n > maxWorldPaths L then s\<lparr>numWorldPaths := maxWorldPaths L\<rparr>
     else load_paths L ps
       (set_WorldPath n
          ((WorldPath s n)\<lparr>path_Location := \<lparr>loc_X = wp_x p, loc_Y = wp_y p, loc_Width = 32, loc_Height = 32\<rparr>,
                           path_Type := s32 (wp_id p)\<rparr>)
          (s\<lparr>numWorldPaths := n\<rparr>)))"

fun load_levels :: "limits \<Rightarrow> WorldLevelTile list \<Rightarrow> world \<Rightarrow> world" where
  "load_levels L [] s = s"
| "load_levels L (l # ls) s =
    (let n = numWorldLevels s + 1 in
     if n > maxWorldLevels L then s\<lparr>numWorldLevels := maxWorldLevels L\<rparr>
     else load_levels L ls
       (set_WorldLevel n
          \<lparr>level_Location = \<lparr>loc_X = wl_x l, loc_Y = wl_y l, loc_Width = 32, loc_Height = 32\<rparr>,
           level_Type = s32 (wl_id l), level_FileName = wl_lvlfile l, level_LevelName = wl_title l,
           level_LevelExit = (level_LevelExit (WorldLevel s n))
              (1 := wl_top_exit l, 2 := wl_left_exit l, 3 := wl_bottom_exit l,
               4 := wl_right_exit l),
           level_StartWarp = s32 (wl_entertowarp l), level_Visible = wl_alwaysVisible l,
           level_Active = wl_alwaysVisible l, level_Path = wl_pathbg l,
           level_Start = wl_gamestart l, level_WarpX = wl_gotox l, level_WarpY = wl_gotoy l,
           level_Path2 = wl_bigpathbg l\<rparr>
          (s\<lparr>numWorldLevels := n\<rparr>)))"

fun load_music :: "limits \<Rightarrow> WorldMusicBox list \<Rightarrow> world \<Rightarrow> world" where
  "load_music L [] s = s"
| "load_music L (m # ms) s =
    (let n = numWorldMusic s + 1 in
     if n > maxWorldMusic L then s\<lparr>numWorldMusic := maxWorldMusic L\<rparr>
     else load_music L ms
       (set_WorldMusic n
          \<lparr>music_Location = \<lparr>loc_X = wm_x m + 1, loc_Y = wm_y m + 1, loc_Width = 30, loc_Height = 30\<rparr>,
           music_Type = s32 (wm_id m)\<rparr>
          (s\<lparr>numWorldMusic := n\<rparr>)))"

text \<open>
  The closing loop of OpenWorld activates the start levels.  FileRelease is the local
  constant 0, so the test is on the level type.  (WorldPlayer and LevelPath live outside
  the five arrays' bookkeeping and are not part of this state.)
\<close>

definition activate_start_levels :: "world \<Rightarrow> world" where
  "activate_start_levels s0 =
     fold (\<lambda>A s. if level_Type (WorldLevel s A) = 1
                  then set_WorldLevel A ((WorldLevel s A)\<lparr>level_Active := True\<rparr>) s else s)
          [1 .. numWorldLevels s0] s0"

definition OpenWorld :: "limits \<Rightarrow> tables \<Rightarrow> WorldData \<Rightarrow> world \<Rightarrow> world" where
  "OpenWorld L T wld s0 =
    (let s1 = ClearWorld s0;
         s2 = s1\<lparr>numTiles := 0, numScenes := 0, numWorldLevels := 0, numWorldPaths := 0,
                 numWorldMusic := 0\<rparr>;
         s3 = load_tiles L T (wld_tiles wld) s2;
         s4 = load_scenery L T (wld_scenery wld) s3;
         s5 = load_paths L (wld_paths wld) s4;
         s6 = load_levels L (wld_levels wld) s5;
         s7 = load_music L (wld_music wld) s6
     in activate_start_levels s7)"

text \<open>A write is in bounds when its index lies between 1 and the array's maximum.\<close>

definition write_ok :: "limits \<Rightarrow> world_array \<times> int \<Rightarrow> bool" where
  "write_ok L w = (1 \<le> snd w \<and> snd w \<le> arr_max L (fst w))"

definition counts_ok :: "limits \<Rightarrow> world \<Rightarrow> bool" where
  "counts_ok L s = (numTiles s \<le> maxTiles L \<and> numScenes s \<le> maxScenes L \<and>
     numWorldPaths s \<le> maxWorldPaths L \<and> numWorldLevels s \<le> maxWorldLevels L \<and>
     numWorldMusic s \<le> maxWorldMusic L)"

text \<open>The loading loops keep every counter between 0 and its maximum.\<close>

definition counts_inv :: "limits \<Rightarrow> world \<Rightarrow> bool" where
  "counts_inv L s = (0 \<le> numTiles s \<and> 0 \<le> numScenes s \<and> 0 \<le> numWorldPaths s \<and>
     0 \<le> numWorldLevels s \<and> 0 \<le> numWorldMusic s \<and> counts_ok L s)"

definition same_counts :: "world \<Rightarrow> world \<Rightarrow> bool" where
  "same_counts s t = (numTiles t = numTiles s \<and> numScenes t = numScenes s \<and>
     numWorldPaths t = numWorldPaths s \<and> numWorldLevels t = numWorldLevels s \<and>
     numWorldMusic t = numWorldMusic s)"

definition limits_ok :: "limits \<Rightarrow> bool" where
  "limits_ok L = (0 \<le> maxTiles L \<and> 0 \<le> maxScenes L \<and> 0 \<le> maxWorldPaths L \<and>
     0 \<le> maxWorldLevels L \<and> 0 \<le> maxWorldMusic L)"

text \<open>\<open>new_writes_ok L s s'\<close>: every write logged in s' beyond those of s is in bounds.\<close>

definition new_writes_ok :: "limits \<Rightarrow> world \<Rightarrow> world \<Rightarrow> bool" where
  "new_writes_ok L s s' =
     (\<exists>ws. writes s' = writes s @ ws \<and> list_all (write_ok L) ws)"

text \<open>A small world for concrete evaluation: room for one tile, two tiles supplied.\<close>

definition L0 :: limits where
  "L0 = \<lparr>maxTiles = 1, maxScenes = 1, maxWorldPaths = 1, maxWorldLevels = 1, maxWorldMusic = 1\<rparr>"

definition T0 :: tables where
  "T0 = \<lparr>TileWidth = (\<lambda>_. 32), TileHeight = (\<lambda>_. 32), SceneWidth = (\<lambda>_. 32),
          SceneHeight = (\<lambda>_. 32)\<rparr>"

definition world0 :: world where
  "world0 = \<lparr>Tile = (\<lambda>_. blankTile), Scene = (\<lambda>_. blankScene), WorldPath = (\<lambda>_. blankPath),
     WorldLevel = (\<lambda>_. blankLevel), WorldMusic = (\<lambda>_. blankMusic), numTiles = 0,
     numScenes = 0, numWorldPaths = 0, numWorldLevels = 0, numWorldMusic = 0, writes = []\<rparr>"

definition wld0 :: WorldData where
  "wld0 = \<lparr>wld_tiles = [\<lparr>wt_x = 0, wt_y = 0, wt_id = 1\<rparr>, \<lparr>wt_x = 32, wt_y = 0, wt_id = 2\<rparr>],
     wld_scenery = [], wld_paths = [], wld_levels = [],
     wld_music = [\<lparr>wm_x = 5, wm_y = 6, wm_id = 3\<rparr>]\<rparr>"

section \<open>The 3DS renderer: data model\<close>

text \<open>
  render_3ds.cpp drives citro2d/citro3d.  The library and the shared minport layer are
  outside the file, so they enter the model in two ways: every call into them is appended
  to a trace (\<open>calls\<close>), and the calls whose results the code branches on are fields of a
  \<open>backend\<close> record acting on an abstract backend state \<open>'e\<close>.
\<close>

text \<open>
  A loaded sprite sheet (a non-null \<open>C2D_SpriteSheet\<close>).  Its first image carries the
  sub-texture's width and height, which \<open>s_loadTexture\<close> reads.
\<close>

record sheet =
  sheet_path :: string
  subtex_width :: nat
  subtex_height :: nat

datatype C2D_Image = NoImage | SheetImage sheet | LayerImage nat

text \<open>
  StdPicture.  The members \<open>w\<close>, \<open>h\<close>, \<open>frame_w\<close>, \<open>frame_h\<close> carry the prefix \<open>pic_\<close>;
  \<open>l.path\<close>, \<open>l.lazyLoaded\<close>, \<open>d.texture\<close>, \<open>d.image\<close> and so on are written with an
  underscore.  A null handle is \<open>None\<close>.
\<close>

record StdPicture =
  inited :: bool
  pic_w :: int
  pic_h :: int
  pic_frame_w :: int
  pic_frame_h :: int
  l_path :: string
  l_lazyLoaded :: bool
  d_texture :: "sheet option"
  d_image :: C2D_Image
  d_texture2 :: "sheet option"
  d_image2 :: C2D_Image
  d_texture3 :: "sheet option"
  d_image3 :: C2D_Image

text \<open>
  Modelled from the spec: the constructor of StdPicture is declared in std_picture.h, which
  is not part of the sources.  A texture resource is "created empty" (data model, Texture
  Resource lifecycle): not inited, no dimensions, no path, no backend handle.
\<close>

definition StdPicture_new :: StdPicture where
  "StdPicture_new = \<lparr>inited = False, pic_w = 0, pic_h = 0, pic_frame_w = 0, pic_frame_h = 0,
     l_path = [], l_lazyLoaded = False, d_texture = None, d_image = NoImage,
     d_texture2 = None, d_image2 = NoImage, d_texture3 = None, d_image3 = NoImage\<rparr>"

datatype target = top_screen | right_screen | bottom_screen | layer_target nat

text \<open>The arguments of one \<open>C2D_DrawImage_Custom\<close> call, in the order the code passes them.\<close>

record draw_image =
  di_img :: C2D_Image
  di_x :: int
  di_y :: int
  di_w :: int
  di_h :: int
  di_src_x :: int
  di_src_y :: int
  di_src_w :: int
  di_src_h :: int
  di_flip :: "32 word"
  di_red :: rat
  di_green :: rat
  di_blue :: rat
  di_alpha :: rat

datatype call =
    minport_initFrame
  | C3D_FrameBegin
  | C3D_FrameEnd
  | C2D_TargetClear target "32 word"
  | C2D_SceneBegin target
  | C2D_Flush
  | C2D_ViewReset
  | C2D_ViewSave
  | C2D_ViewRestore
  | C2D_ViewTranslate int int
  | C2D_ViewRotateDegrees rat
  | C3D_SetViewport int int int int
  | C2D_SceneSize int int bool
  | C2D_DrawImage_Custom draw_image
  | C2D_DrawRectSolid int int int int int "32 word"
  | renderRect int int int int
  | SpriteSheetLoad string bool
  | SpriteSheetFree sheet
  | freeTextureMemory
  | minport_unlinkTexture
  | pLogWarning string
  | pLogDebug string

text \<open>
  The backend: loading a sprite sheet from a path may fail (null) and changes the backend
  state; \<open>linearSpaceFree\<close> reads the free linear memory in bytes; the eviction pass
  \<open>minport_freeTextureMemory\<close> of the shared minport layer is taken as a change of the
  backend state.  \<open>linked\<close> and the frame buffer size are fields of a render target.
  \<open>pivot_of c\<close> is the value of \<open>c / 2.0f + 0.5f\<close> converted to \<open>int16_t\<close>, as the
  platform's single-precision arithmetic computes it.
\<close>

record 'e backend =
  C2D_SpriteSheetLoad :: "string \<Rightarrow> 'e \<Rightarrow> sheet option \<times> 'e"
  C2D_SpriteSheetFree :: "sheet \<Rightarrow> 'e \<Rightarrow> 'e"
  linearSpaceFree :: "'e \<Rightarrow> nat"
  minport_freeTextureMemory :: "'e \<Rightarrow> 'e"
  linked :: "target \<Rightarrow> bool"
  frameBuf_width :: "target \<Rightarrow> int"
  frameBuf_height :: "target \<Rightarrow> int"
  pivot_of :: "rat \<Rightarrow> int"

text \<open>
  The globals of render_3ds.cpp, the globals of other modules it reads, the backend state
  and the trace.  Floats (the depth slider, tints, angles) are the rational numbers they
  denote.
\<close>

record 'e render_state =
  env :: 'e
  calls :: "call list"
  s_current_frame :: "32 word"
  s_depth_slider :: rat
  g_in_frame :: bool
  g_screen_swapped :: bool
  s_single_layer_mode :: bool
  s_tex_w :: int
  s_tex_show_w :: int
  s_tex_h :: int
  s_num_textures_loaded :: int
  s_cur_target :: "target option"
  GameIsActive :: bool
  LevelEditor :: bool
  MagicHand :: bool
  editorScreen_active :: bool
  g_screen_phys_x :: int
  g_screen_phys_y :: int
  g_screen_phys_w :: int
  g_screen_phys_h :: int
  g_viewport_x :: int
  g_viewport_y :: int
  g_viewport_w :: int
  g_viewport_h :: int
  g_viewport_offset_x :: int
  g_viewport_offset_y :: int
  g_viewport_offset_ignore :: bool

definition emit :: "call \<Rightarrow> 'e render_state \<Rightarrow> 'e render_state" where
  "emit c s = s\<lparr>calls := calls s @ [c]\<rparr>"

text \<open>The calls a state has beyond those of an earlier state, and the paths of the
  load attempts in a trace.\<close>

definition new_calls :: "'e render_state \<Rightarrow> 'e render_state \<Rightarrow> call list" where
  "new_calls s s' = drop (length (calls s)) (calls s')"

fun load_paths_of :: "call list \<Rightarrow> string list" where
  "load_paths_of [] = []"
| "load_paths_of (SpriteSheetLoad p ok # cs) = p # load_paths_of cs"
| "load_paths_of (c # cs) = load_paths_of cs"

definition emits :: "call list \<Rightarrow> 'e render_state \<Rightarrow> 'e render_state" where
  "emits cs s = s\<lparr>calls := calls s @ cs\<rparr>"

subsection \<open>Machine arithmetic\<close>

text \<open>
  \<open>int16_t\<close> variables hold integers; an assignment to one keeps the low 16 bits, signed.
  Conversions from floating point to an integer type drop the fraction.
  \<open>C2D_Color32\<close> packs four bytes, red lowest.
\<close>

definition s16 :: "int \<Rightarrow> int" where
  "s16 x = signed_take_bit 15 x"

definition in16 :: "int \<Rightarrow> bool" where
  "in16 x = (- 32768 \<le> x \<and> x \<le> 32767)"

definition trunc_int :: "rat \<Rightarrow> int" where
  "trunc_int r = (if 0 \<le> r then \<lfloor>r\<rfloor> else \<lceil>r\<rceil>)"

definition C2D_Color32 :: "8 word \<Rightarrow> 8 word \<Rightarrow> 8 word \<Rightarrow> 8 word \<Rightarrow> 32 word" where
  "C2D_Color32 r g b a =
     ucast r OR push_bit 8 (ucast g) OR push_bit 16 (ucast b) OR push_bit 24 (ucast a)"

section \<open>Texture loading\<close>

definition s_loadTexture :: "sheet \<Rightarrow> StdPicture \<Rightarrow> StdPicture" where
  "s_loadTexture sh t =
    (let t1 = t\<lparr>d_texture := Some sh, d_image := SheetImage sh\<rparr>
     in if pic_w t1 = 0
        then t1\<lparr>pic_w := int (subtex_width sh) * 2, pic_h := int (subtex_height sh) * 2\<rparr>
        else t1)"

definition s_loadTexture2 :: "sheet \<Rightarrow> StdPicture \<Rightarrow> StdPicture" where
  "s_loadTexture2 sh t = t\<lparr>d_texture2 := Some sh, d_image2 := SheetImage sh\<rparr>"

definition s_loadTexture3 :: "sheet \<Rightarrow> StdPicture \<Rightarrow> StdPicture" where
  "s_loadTexture3 sh t = t\<lparr>d_texture3 := Some sh, d_image3 := SheetImage sh\<rparr>"

text \<open>One \<open>C2D_SpriteSheetLoad\<close> call, recorded in the trace with its outcome.\<close>

definition sheet_load ::
  "'e backend \<Rightarrow> string \<Rightarrow> 'e render_state \<Rightarrow> sheet option \<times> 'e render_state" where
  "sheet_load be path s =
    (case C2D_SpriteSheetLoad be path (env s) of
       (r, e) \<Rightarrow> (r, emit (SpriteSheetLoad path (r \<noteq> None)) (s\<lparr>env := e\<rparr>)))"

definition free_texture_memory :: "'e backend \<Rightarrow> 'e render_state \<Rightarrow> 'e render_state" where
  "free_texture_memory be s =
     emit freeTextureMemory (s\<lparr>env := minport_freeTextureMemory be (env s)\<rparr>)"

definition sheet_free :: "'e backend \<Rightarrow> sheet \<Rightarrow> 'e render_state \<Rightarrow> 'e render_state" where
  "sheet_free be sh s = emit (SpriteSheetFree sh) (s\<lparr>env := C2D_SpriteSheetFree be sh (env s)\<rparr>)"

definition s_tryHardToLoadC2D_SpriteSheet ::
  "'e backend \<Rightarrow> string \<Rightarrow> 'e render_state \<Rightarrow> sheet option \<times> 'e render_state" where
  "s_tryHardToLoadC2D_SpriteSheet be path s =
    (case sheet_load be path s of
       (Some sourceImage, s1) \<Rightarrow> (Some sourceImage, s1)
     | (None, s1) \<Rightarrow>
         sheet_load be path
           (if linearSpaceFree be (env s1) < 4000000 then free_texture_memory be s1 else s1))"

text \<open>
  lazyLoad, with its two overflow blocks \<open>if(target.h > 2048) {...}\<close> and
  \<open>if(target.h > 4096) {...}\<close> and its closing low-memory check as definitions of their
  own.  The second band goes through the retrying loader, the third through a plain
  \<open>C2D_SpriteSheetLoad\<close>.
\<close>

definition lazyLoad_band2 ::
  "'e backend \<Rightarrow> StdPicture \<times> 'e render_state \<Rightarrow> StdPicture \<times> 'e render_state" where
  "lazyLoad_band2 be ts =
    (case ts of (target, s) \<Rightarrow>
      if pic_h target > 2048 then
        (case s_tryHardToLoadC2D_SpriteSheet be (l_path target @ ''1'') s of
           (None, s') \<Rightarrow>
             (target, emits [pLogWarning ''Permanently failed to load %s, %lu free'',
                             pLogWarning ''Error: %d (%s)''] s')
         | (Some sourceImage, s') \<Rightarrow> (s_loadTexture2 sourceImage target, s'))
      else (target, s))"

definition lazyLoad_band3 ::
  "'e backend \<Rightarrow> StdPicture \<times> 'e render_state \<Rightarrow> StdPicture \<times> 'e render_state" where
  "lazyLoad_band3 be ts =
    (case ts of (target, s) \<Rightarrow>
      if pic_h target > 4096 then
        (case sheet_load be (l_path target @ ''2'') s of
           (None, s') \<Rightarrow>
             (target, emits [pLogWarning ''Permanently failed to load %s, %lu free'',
                             pLogWarning ''Error: %d (%s)''] s')
         | (Some sourceImage, s') \<Rightarrow> (s_loadTexture3 sourceImage target, s'))
      else (target, s))"

definition low_memory_check :: "'e backend \<Rightarrow> 'e render_state \<Rightarrow> 'e render_state" where
  "low_memory_check be s =
    (if linearSpaceFree be (env s) < 4194304
     then free_texture_memory be
            (emit (pLogDebug ''Triggering free texture memory due to low memory (%u bytes)'') s)
     else s)"

definition lazyLoad ::
  "'e backend \<Rightarrow> StdPicture \<times> 'e render_state \<Rightarrow> StdPicture \<times> 'e render_state" where
  "lazyLoad be ts =
    (case ts of (target, s) \<Rightarrow>
      if \<not> inited target \<or> \<not> l_lazyLoaded target \<or> d_texture target \<noteq> None then (target, s)
      else
        (case s_tryHardToLoadC2D_SpriteSheet be (l_path target) s of
           (None, s1) \<Rightarrow>
             (target\<lparr>inited := False\<rparr>,
              emits [pLogWarning ''Permanently failed to load %s, %lu free'',
                     pLogWarning ''Error: %d (%s)''] s1)
         | (Some sourceImage, s1) \<Rightarrow>
             (case lazyLoad_band3 be
                     (lazyLoad_band2 be (s_loadTexture sourceImage target, s1)) of
                (t3, s3) \<Rightarrow>
                  (t3, low_memory_check be
                         (s3\<lparr>s_num_textures_loaded := s_num_textures_loaded s3 + 1\<rparr>)))))"

definition deleteTexture ::
  "'e backend \<Rightarrow> bool \<Rightarrow> StdPicture \<times> 'e render_state \<Rightarrow> StdPicture \<times> 'e render_state" where
  "deleteTexture be lazyUnload ts =
    (case ts of (tx, s) \<Rightarrow>
      if \<not> inited tx then (tx, s)
      else
        let s0 = emit minport_unlinkTexture s;
            (t1, s1) = (case d_texture tx of
                          Some sh \<Rightarrow> (tx\<lparr>d_texture := None\<rparr>,
                                      sheet_free be sh
                                        (s0\<lparr>s_num_textures_loaded := s_num_textures_loaded s0 - 1\<rparr>))
                        | None \<Rightarrow> (tx, s0));
            (t2, s2) = (case d_texture2 t1 of
                          Some sh \<Rightarrow> (t1\<lparr>d_texture2 := None\<rparr>, sheet_free be sh s1)
                        | None \<Rightarrow> (t1, s1));
            (t3, s3) = (case d_texture3 t2 of
                          Some sh \<Rightarrow> (t2\<lparr>d_texture3 := None\<rparr>, sheet_free be sh s2)
                        | None \<Rightarrow> (t2, s2))
        in if \<not> lazyUnload
           then (t3\<lparr>inited := False, l_lazyLoaded := False, pic_w := 0, pic_h := 0,
                    pic_frame_w := 0, pic_frame_h := 0\<rparr>, s3)
           else (t3, s3))"

definition lazyUnLoad ::
  "'e backend \<Rightarrow> StdPicture \<times> 'e render_state \<Rightarrow> StdPicture \<times> 'e render_state" where
  "lazyUnLoad be ts =
    (case ts of (target, s) \<Rightarrow>
      if \<not> inited target \<or> \<not> l_lazyLoaded target \<or> d_texture target = None then (target, s)
      else deleteTexture be True (target, s))"

subsection \<open>The size sidecar\<close>

text \<open>
  \<open>atoi\<close> of the C library on a character buffer: the string ends at the first NUL; leading
  white space is skipped, one sign is accepted, and the decimal digits that follow are
  read up to the first other character.
\<close>

definition isspace_c :: "char \<Rightarrow> bool" where
  "isspace_c c = (c = CHR '' '' \<or> (9 \<le> (of_char c :: nat) \<and> (of_char c :: nat) \<le> 13))"

definition isdigit_c :: "char \<Rightarrow> bool" where
  "isdigit_c c = (48 \<le> (of_char c :: nat) \<and> (of_char c :: nat) \<le> 57)"

fun digits_val :: "nat \<Rightarrow> string \<Rightarrow> nat" where
  "digits_val acc [] = acc"
| "digits_val acc (c # cs) =
     (if isdigit_c c then digits_val (10 * acc + (of_char c - 48)) cs else acc)"

definition atoi :: "string \<Rightarrow> int" where
  "atoi buf =
    (case dropWhile isspace_c (takeWhile (\<lambda>c. c \<noteq> CHR 0x00) buf) of
       [] \<Rightarrow> 0
     | c # cs \<Rightarrow>
         if c = CHR ''-'' then - int (digits_val 0 cs)
         else if c = CHR ''+'' then int (digits_val 0 cs)
         else int (digits_val 0 (c # cs)))"

text \<open>
  \<open>fread(&contents[0], 1, 10, fs)\<close> into the uninitialised \<open>char contents[10]\<close>: the bytes
  the file has, up to ten; the cells it does not reach keep their indeterminate value
  \<open>junk i\<close>.
\<close>

definition fread10 :: "string \<Rightarrow> (nat \<Rightarrow> char) \<Rightarrow> string" where
  "fread10 bytes junk = map (\<lambda>i. if i < length bytes then bytes ! i else junk i) [0 ..< 10]"

text \<open>
  \<open>fs\<close> is the file system as \<open>fopen\<close> sees it: the bytes of a file that can be opened for
  reading, \<open>None\<close> otherwise.  \<open>fclose\<close> on the file just read is taken to succeed.
\<close>

definition lazyLoadPicture ::
  "'e backend \<Rightarrow> (string \<Rightarrow> string option) \<Rightarrow> (nat \<Rightarrow> char) \<Rightarrow> string \<Rightarrow> 'e render_state
     \<Rightarrow> StdPicture \<times> 'e render_state" where
  "lazyLoadPicture be fs junk path s =
    (let target = StdPicture_new in
     if \<not> GameIsActive s then (target, s)
     else
       let t1 = target\<lparr>inited := False, l_path := path\<rparr> in
       if l_path t1 = [] then (t1, s)
       else
         let t2 = t1\<lparr>inited := True, l_lazyLoaded := True\<rparr>;
             sizePath = path @ ''.size''
         in (case fs sizePath of
               Some bytes \<Rightarrow>
                 let contents = (fread10 bytes junk)[4 := CHR 0x00, 9 := CHR 0x00]
                 in (t2\<lparr>pic_w := atoi contents, pic_h := atoi (drop 5 contents)\<rparr>, s)
             | None \<Rightarrow>
                 lazyUnLoad be
                   (lazyLoad be
                      (t2, emit (pLogWarning ''lazyLoadPicture: Couldn't open size file.'') s))))"

text \<open>
  The sidecar format in the words of the specification: the width as four zero-padded
  ASCII digits, a newline, the height as four zero-padded ASCII digits, a newline.
\<close>

definition digit_char :: "nat \<Rightarrow> char" where
  "digit_char d = char_of (48 + d mod 10)"

definition pad4 :: "nat \<Rightarrow> string" where
  "pad4 n = [digit_char (n div 1000), digit_char (n div 100), digit_char (n div 10), digit_char n]"

definition sidecar_bytes :: "nat \<Rightarrow> nat \<Rightarrow> string" where
  "sidecar_bytes W H = pad4 W @ [CHR 0x0A] @ pad4 H @ [CHR 0x0A]"

section \<open>Frames and render targets\<close>

text \<open>
  \<open>C2D_Color32(0, 0, 0, 0)\<close> is transparent black; \<open>C2D_Color32f(0.0f, 0.0f, 0.0f, 1.0f)\<close>
  is opaque black, the alpha byte being 255.  \<open>X_FLIP_NONE\<close> of core/render.h is the
  flip value with no bit set.
\<close>

definition transparent_black :: "32 word" where
  "transparent_black = C2D_Color32 0 0 0 0"

definition opaque_black :: "32 word" where
  "opaque_black = C2D_Color32 0 0 0 255"

definition X_FLIP_NONE :: "32 word" where
  "X_FLIP_NONE = 0"

text \<open>
  The loops \<open>for(layer = 0; layer < 4; layer++) { ...; if(s_single_layer_mode) break; }\<close>
  visit layer 0 alone in single-layer mode and the layers 0 to 3 otherwise.
\<close>

definition scene_layers :: "'e render_state \<Rightarrow> nat list" where
  "scene_layers s = (if s_single_layer_mode s then [0] else [0, 1, 2, 3])"

text \<open>The calls \<open>s_ensureInFrame\<close> makes when it begins a frame.\<close>

definition frame_begin_calls :: "'e render_state \<Rightarrow> call list" where
  "frame_begin_calls s =
     [minport_initFrame, C3D_FrameBegin]
     @ map (\<lambda>layer. C2D_TargetClear (layer_target layer) transparent_black) (scene_layers s)
     @ [C2D_TargetClear bottom_screen transparent_black]"

definition s_ensureInFrame :: "'e render_state \<Rightarrow> 'e render_state" where
  "s_ensureInFrame s =
    (if \<not> g_in_frame s then (emits (frame_begin_calls s) s)\<lparr>g_in_frame := True\<rparr> else s)"

definition minport_ApplyViewport :: "'e backend \<Rightarrow> 'e render_state \<Rightarrow> 'e render_state" where
  "minport_ApplyViewport be s =
    (if \<not> g_in_frame s then s
     else
       let s1 = emits [C2D_Flush, C2D_ViewReset] s;
           s2 = (if \<not> g_viewport_offset_ignore s1
                 then emit (C2D_ViewTranslate (g_viewport_offset_x s1) (g_viewport_offset_y s1)) s1
                 else s1)
       in (case s_cur_target s2 of
             None \<Rightarrow> s2
           | Some tg \<Rightarrow>
               if linked be tg then
                 let hw_viewport_x = min (max (g_viewport_y s2) 0) (frameBuf_width be tg - 1);
                     hw_viewport_y = min (max (g_viewport_x s2) 0) (frameBuf_height be tg - 1);
                     hw_viewport_w = min (frameBuf_width be tg - hw_viewport_x) (g_viewport_h s2);
                     hw_viewport_h = min (frameBuf_height be tg - hw_viewport_y) (g_viewport_w s2)
                 in emits [C3D_SetViewport (frameBuf_width be tg - hw_viewport_x - hw_viewport_w)
                             hw_viewport_y hw_viewport_w hw_viewport_h,
                           C2D_SceneSize (g_viewport_h s2) (g_viewport_w s2) True] s2
               else
                 let hw_viewport_x = min (max (g_viewport_x s2) 0) (frameBuf_width be tg - 1);
                     hw_viewport_y = min (max (g_viewport_y s2) 0) (frameBuf_height be tg - 1);
                     hw_viewport_w = min (frameBuf_width be tg - hw_viewport_x) (g_viewport_w s2);
                     hw_viewport_h = min (frameBuf_height be tg - hw_viewport_y) (g_viewport_h s2)
                 in emits [C3D_SetViewport hw_viewport_x
                             (frameBuf_height be tg - hw_viewport_y - hw_viewport_h)
                             hw_viewport_w hw_viewport_h,
                           C2D_SceneSize (g_viewport_w s2) (g_viewport_h s2) False] s2))"

definition setTargetTexture :: "'e render_state \<Rightarrow> 'e render_state" where
  "setTargetTexture s =
    (let s1 = s_ensureInFrame s;
         tg = (if \<not> s_single_layer_mode s1 then layer_target 2 else layer_target 0)
     in emit C2D_ViewReset ((emit (C2D_SceneBegin tg) s1)\<lparr>s_cur_target := Some tg\<rparr>))"

definition setTargetScreen :: "'e render_state \<Rightarrow> 'e render_state" where
  "setTargetScreen s = s"

definition setTargetMainScreen :: "'e render_state \<Rightarrow> 'e render_state" where
  "setTargetMainScreen s =
    (let s1 = s_ensureInFrame s
     in emit C2D_ViewReset
          ((emits [C2D_TargetClear top_screen opaque_black, C2D_SceneBegin top_screen] s1)
             \<lparr>s_cur_target := Some top_screen\<rparr>))"

definition setTargetSubScreen :: "'e render_state \<Rightarrow> 'e render_state" where
  "setTargetSubScreen s =
    (let s1 = s_ensureInFrame s
     in emit C2D_ViewReset
          ((emits [C2D_TargetClear bottom_screen opaque_black, C2D_SceneBegin bottom_screen] s1)
             \<lparr>s_cur_target := Some bottom_screen\<rparr>))"

definition setTargetLayer :: "'e backend \<Rightarrow> nat \<Rightarrow> 'e render_state \<Rightarrow> 'e render_state" where
  "setTargetLayer be layer s =
    (let s1 = s_ensureInFrame s;
         tg = (if \<not> s_single_layer_mode s1 then layer_target layer else layer_target 0)
     in minport_ApplyViewport be ((emit (C2D_SceneBegin tg) s1)\<lparr>s_cur_target := Some tg\<rparr>))"

text \<open>\<open>renderRect\<close> belongs to the shared render layer; its call is recorded with the
  rectangle (the colour is opaque black, filled, each time).\<close>

definition clearBuffer :: "'e render_state \<Rightarrow> 'e render_state" where
  "clearBuffer s =
    (if \<not> g_in_frame s then
       emits [C3D_FrameBegin, C2D_ViewReset,
              C2D_TargetClear top_screen opaque_black, C2D_SceneBegin top_screen,
              renderRect 0 0 400 240,
              C2D_TargetClear right_screen opaque_black, C2D_SceneBegin right_screen,
              renderRect 0 0 400 240,
              C2D_TargetClear bottom_screen opaque_black, C2D_SceneBegin bottom_screen,
              renderRect 0 0 320 240,
              C3D_FrameEnd] s
     else s)"

text \<open>Two states agree on the frame flag and on the frame counter.\<close>

definition same_frame :: "'e render_state \<Rightarrow> 'e render_state \<Rightarrow> bool" where
  "same_frame s s' = (g_in_frame s' = g_in_frame s \<and> s_current_frame s' = s_current_frame s)"

section \<open>Composition: repaint\<close>

text \<open>
  \<open>constexpr int shift = 0\<close> and \<open>constexpr double shift_i[] = {shift, shift * 0.4, 0,
  shift * -0.4}\<close>.  The slider value is a float compared with the double 0.05; no float lies
  between one twentieth and the double nearest to it, so the comparison is the comparison
  of the numbers.
\<close>

definition shift :: int where
  "shift = 0"

definition shift_i :: "rat list" where
  "shift_i = [of_int shift, of_int shift * (4 / 10), 0, of_int shift * (- (4 / 10))]"

text \<open>One layer drawn onto the current scene: the layer image, the destination rectangle
  at \<open>x\<close>, the source rectangle starting at \<open>src_x\<close>, no flip, no tint.\<close>

definition layer_draw :: "'e render_state \<Rightarrow> nat \<Rightarrow> int \<Rightarrow> int \<Rightarrow> draw_image" where
  "layer_draw s layer x src_x =
     \<lparr>di_img = LayerImage layer, di_x = x, di_y = g_screen_phys_y s,
      di_w = g_screen_phys_w s, di_h = g_screen_phys_h s,
      di_src_x = src_x, di_src_y = 0, di_src_w = s_tex_show_w s, di_src_h = s_tex_h s,
      di_flip = X_FLIP_NONE, di_red = 1, di_green = 1, di_blue = 1, di_alpha = 1\<rparr>"

text \<open>\<open>repaint\<close>; its argument is the value \<open>osGet3DSliderState()\<close> returns.  The calls
  into the profiler \<open>g_microStats\<close> are left out.\<close>

definition repaint :: "rat \<Rightarrow> 'e render_state \<Rightarrow> 'e render_state" where
  "repaint slider s =
    (if \<not> g_in_frame s then s
     else
       let s1 = emit C2D_ViewReset (s\<lparr>s_depth_slider := slider, s_cur_target := None\<rparr>);
           s2 =
            (if g_screen_swapped s1 \<and> (LevelEditor s1 \<or> MagicHand s1) \<and> editorScreen_active s1
             then emits ([C2D_TargetClear top_screen opaque_black, C2D_SceneBegin top_screen]
                    @ map (\<lambda>layer. C2D_DrawImage_Custom
                             (layer_draw s1 layer (g_screen_phys_x s1 + 40) shift))
                        (scene_layers s1)) s1
             else if g_screen_swapped s1
             then emits ([C2D_TargetClear bottom_screen opaque_black, C2D_SceneBegin bottom_screen]
                    @ map (\<lambda>layer. C2D_DrawImage_Custom
                             (layer_draw s1 layer (g_screen_phys_x s1) shift))
                        (scene_layers s1)) s1
             else if LevelEditor s1 \<and> \<not> editorScreen_active s1
             then emits ([C2D_TargetClear bottom_screen opaque_black, C2D_SceneBegin bottom_screen]
                    @ map (\<lambda>layer. C2D_DrawImage_Custom
                             (layer_draw s1 layer (g_screen_phys_x s1 - 40) shift))
                        (scene_layers s1)) s1
             else if s_depth_slider s1 \<le> 5 / 100 \<or> s_single_layer_mode s1
             then emits ([C2D_TargetClear top_screen opaque_black, C2D_SceneBegin top_screen]
                    @ map (\<lambda>layer. C2D_DrawImage_Custom
                             (layer_draw s1 layer (g_screen_phys_x s1) shift))
                        (scene_layers s1)) s1
             else emits ([C2D_TargetClear top_screen opaque_black, C2D_SceneBegin top_screen]
                    @ map (\<lambda>layer. C2D_DrawImage_Custom
                             (layer_draw s1 layer (g_screen_phys_x s1)
                                (shift + trunc_int (shift_i ! layer * s_depth_slider s1))))
                        [0, 1, 2, 3]
                    @ [C2D_TargetClear right_screen opaque_black, C2D_SceneBegin right_screen]
                    @ map (\<lambda>layer. C2D_DrawImage_Custom
                             (layer_draw s1 layer (g_screen_phys_x s1)
                                (shift - trunc_int (shift_i ! layer * s_depth_slider s1))))
                        [0, 1, 2, 3]) s1)
       in emit C3D_FrameEnd
            (s2\<lparr>s_current_frame := s_current_frame s2 + 1, g_in_frame := False\<rparr>))"

text \<open>
  Reading a trace: each \<open>C2D_DrawImage_Custom\<close> lands on the target of the latest
  \<open>C2D_SceneBegin\<close>.  \<open>layer_multiplier\<close> is the list of per-layer multipliers in the words
  of the specification.
\<close>

fun scene_draws :: "target option \<Rightarrow> call list \<Rightarrow> (target \<times> draw_image) list" where
  "scene_draws cur [] = []"
| "scene_draws cur (C2D_SceneBegin tg # cs) = scene_draws (Some tg) cs"
| "scene_draws cur (C2D_DrawImage_Custom d # cs) =
     (case cur of Some tg \<Rightarrow> (tg, d) # scene_draws cur cs | None \<Rightarrow> scene_draws cur cs)"
| "scene_draws cur (c # cs) = scene_draws cur cs"

definition layer_multiplier :: "rat list" where
  "layer_multiplier = [1, 4 / 10, 0, - (4 / 10)]"

section \<open>Drawing\<close>

text \<open>The coordinates are \<open>int\<close>; the two differences are taken in 32 bits.\<close>

definition minport_RenderBoxFilled ::
  "int \<Rightarrow> int \<Rightarrow> int \<Rightarrow> int \<Rightarrow> 8 word \<Rightarrow> 8 word \<Rightarrow> 8 word \<Rightarrow> 8 word \<Rightarrow> 'e render_state
     \<Rightarrow> 'e render_state" where
  "minport_RenderBoxFilled x1 y1 x2 y2 r g b a s =
     emit (C2D_DrawRectSolid x1 y1 0 (s32 (x2 - x1)) (s32 (y2 - y1)) (C2D_Color32 r g b a)) s"

text \<open>
  The parameters of \<open>minport_RenderTexturePrivate\<close> other than the picture.  The eight
  coordinates are \<open>int16_t\<close>; the record also serves as the function's local variables,
  which the code overwrites as it goes.  \<open>center\<close> is \<open>None\<close> for a null pointer.
\<close>

record blit =
  xDst :: int
  yDst :: int
  wDst :: int
  hDst :: int
  xSrc :: int
  ySrc :: int
  wSrc :: int
  hSrc :: int
  rotateAngle :: rat
  center :: "(rat \<times> rat) option"
  flip :: "32 word"
  red :: rat
  green :: rat
  blue :: rat
  alpha :: rat

definition draw_args :: "C2D_Image \<Rightarrow> blit \<Rightarrow> draw_image" where
  "draw_args im b =
     \<lparr>di_img = im, di_x = xDst b, di_y = yDst b, di_w = wDst b, di_h = hDst b,
      di_src_x = xSrc b, di_src_y = ySrc b, di_src_w = wSrc b, di_src_h = hSrc b,
      di_flip = flip b, di_red = red b, di_green = green b, di_blue = blue b,
      di_alpha = alpha b\<rparr>"

text \<open>
  The loop \<open>while(ySrc >= tx.h / 2 && mode < 3) { ySrc -= tx.h / 2; mode += 1; }\<close>,
  returning the final \<open>ySrc\<close> and \<open>mode\<close>.  The division is C's, towards zero.
\<close>

function auto_flip :: "int \<Rightarrow> int \<Rightarrow> nat \<Rightarrow> int \<times> nat" where
  "auto_flip y h mode =
     (if y \<ge> h sdiv 2 \<and> mode < 3 then auto_flip (s16 (y - h sdiv 2)) h (mode + 1)
      else (y, mode))"
  by pat_completeness auto
termination
  by (relation "measure (\<lambda>(y, h, mode). 3 - mode)") auto

text \<open>The number of half-heights that lie at or below a source row, at most 3: the
  number of times the loop runs for a source row that is not negative.\<close>

definition flip_count :: "StdPicture \<Rightarrow> blit \<Rightarrow> nat" where
  "flip_count tx b = min 3 (nat (ySrc b div (pic_h tx sdiv 2)))"

text \<open>
  The band dispatch, from \<open>C2D_Image* to_draw = nullptr\<close> to the last draw call.
  \<open>to_draw\<close> and \<open>to_draw_2\<close> point at an image of the picture or are null.
\<close>

definition band_draws :: "StdPicture \<Rightarrow> blit \<Rightarrow> draw_image list" where
  "band_draws tx b =
    (if ySrc b + hSrc b > 1024 then
       let (to_draw, to_draw_2, b1) =
             (if ySrc b + hSrc b > 2048 then
                (if d_texture3 tx \<noteq> None then Some (d_image3 tx) else None,
                 if ySrc b < 2048 \<and> d_texture2 tx \<noteq> None then Some (d_image2 tx) else None,
                 b\<lparr>ySrc := s16 (ySrc b - 1024)\<rparr>)
              else
                (if d_texture2 tx \<noteq> None then Some (d_image2 tx) else None,
                 if ySrc b < 1024 then Some (d_image tx) else None,
                 b));
           (top_draws, b2) =
             (case to_draw_2 of
                Some im2 \<Rightarrow>
                  let hTop = ((1024 - ySrc b1) * hDst b1) sdiv hSrc b1
                  in ([draw_args im2 (b1\<lparr>hDst := hTop, hSrc := 1024 - ySrc b1\<rparr>)],
                      b1\<lparr>yDst := s16 (yDst b1 + hTop),
                         hDst := s16 (hDst b1 - hTop),
                         hSrc := s16 (hSrc b1 - (1024 - ySrc b1)),
                         ySrc := 0\<rparr>)
              | None \<Rightarrow> ([], b1\<lparr>ySrc := s16 (ySrc b1 - 1024)\<rparr>))
       in top_draws @ (case to_draw of Some im \<Rightarrow> [draw_args im b2] | None \<Rightarrow> [])
     else [draw_args (d_image tx) b])"

text \<open>The rotation set-up: the pivot, the view calls, and the destination moved to the
  pivot's negative.\<close>

definition rotation_pivot :: "'e backend \<Rightarrow> blit \<Rightarrow> int \<times> int" where
  "rotation_pivot be b =
    (case center b of
       Some (px, py) \<Rightarrow> (pivot_of be px, pivot_of be py)
     | None \<Rightarrow> (s16 (wDst b sdiv 2), s16 (hDst b sdiv 2)))"

definition minport_RenderTexturePrivate ::
  "'e backend \<Rightarrow> blit \<Rightarrow> StdPicture \<Rightarrow> 'e render_state \<Rightarrow> StdPicture \<times> 'e render_state" where
  "minport_RenderTexturePrivate be b tx s =
    (if \<not> inited tx then (tx, s)
     else
       case (if d_texture tx = None \<and> l_lazyLoaded tx then lazyLoad be (tx, s) else (tx, s)) of
         (tx1, s1) \<Rightarrow>
           if d_texture tx1 = None then (tx1, s1)
           else
             case auto_flip (ySrc b) (pic_h tx1) 0 of
               (y, mode) \<Rightarrow>
                 let b1 = b\<lparr>ySrc := y, flip := flip b XOR of_nat mode\<rparr>;
                     (view_calls, b2) =
                       (if rotateAngle b1 \<noteq> 0 then
                          (case rotation_pivot be b1 of
                             (cx, cy) \<Rightarrow>
                               ([C2D_ViewSave, C2D_ViewTranslate (xDst b1 + cx) (yDst b1 + cy),
                                 C2D_ViewRotateDegrees (rotateAngle b1)],
                                b1\<lparr>xDst := s16 (- cx), yDst := s16 (- cy)\<rparr>))
                        else ([], b1))
                 in (tx1, emits (view_calls @ map C2D_DrawImage_Custom (band_draws tx1 b2)
                                  @ (if rotateAngle b1 \<noteq> 0 then [C2D_ViewRestore] else [])) s1))"

text \<open>The draw calls of a trace, and the draw calls one blit adds to it.\<close>

fun draws_of :: "call list \<Rightarrow> draw_image list" where
  "draws_of [] = []"
| "draws_of (C2D_DrawImage_Custom d # cs) = d # draws_of cs"
| "draws_of (c # cs) = draws_of cs"

definition blit_draws ::
  "'e backend \<Rightarrow> blit \<Rightarrow> StdPicture \<Rightarrow> 'e render_state \<Rightarrow> draw_image list" where
  "blit_draws be b tx s = draws_of (new_calls s (snd (minport_RenderTexturePrivate be b tx s)))"

section \<open>A concrete backend and concrete inputs\<close>

text \<open>
  A backend for evaluating the model on concrete inputs: a table of the sprite sheets that
  can be loaded and a fixed amount of free linear memory.  Loading, freeing and the eviction
  pass leave this backend's state as it is.  The three screens are linked targets of
  240 by 400 pixels, the layers are 512 by 256 textures; the pivot is computed in exact
  arithmetic and then truncated.
\<close>

record test_env =
  te_sheets :: "(string \<times> sheet) list"
  te_free :: nat

definition be_test :: "test_env backend" where
  "be_test = \<lparr>C2D_SpriteSheetLoad = (\<lambda>p e. (map_of (te_sheets e) p, e)),
     C2D_SpriteSheetFree = (\<lambda>sh e. e),
     linearSpaceFree = te_free,
     minport_freeTextureMemory = (\<lambda>e. e),
     linked = (\<lambda>t. case t of layer_target n \<Rightarrow> False | _ \<Rightarrow> True),
     frameBuf_width = (\<lambda>t. case t of layer_target n \<Rightarrow> 512 | _ \<Rightarrow> 240),
     frameBuf_height = (\<lambda>t. case t of layer_target n \<Rightarrow> 256 | _ \<Rightarrow> 400),
     pivot_of = (\<lambda>c. s16 (trunc_int (c / 2 + 1 / 2)))\<rparr>"

definition sheet_a :: sheet where
  "sheet_a = \<lparr>sheet_path = ''a.t3x'', subtex_width = 16, subtex_height = 24\<rparr>"

definition env_a :: test_env where
  "env_a = \<lparr>te_sheets = [(''a.t3x'', sheet_a)], te_free = 8000000\<rparr>"


definition state0 :: "'e \<Rightarrow> 'e render_state" where
  "state0 e = \<lparr>env = e, calls = [], s_current_frame = 0, s_depth_slider = 0,
     g_in_frame = False, g_screen_swapped = False, s_single_layer_mode = False,
     s_tex_w = 400, s_tex_show_w = 400, s_tex_h = 240, s_num_textures_loaded = 0,
     s_cur_target = None, GameIsActive = True, LevelEditor = False, MagicHand = False,
     editorScreen_active = False, g_screen_phys_x = 0, g_screen_phys_y = 0,
     g_screen_phys_w = 400, g_screen_phys_h = 240, g_viewport_x = 0, g_viewport_y = 0,
     g_viewport_w = 400, g_viewport_h = 240, g_viewport_offset_x = 0,
     g_viewport_offset_y = 0, g_viewport_offset_ignore = False\<rparr>"

text \<open>A lazy picture for a.t3x with declared size 32 by 48, not yet uploaded, and the same
  picture with its sheet bound.\<close>

definition pic_lazy :: StdPicture where
  "pic_lazy = StdPicture_new\<lparr>inited := True, l_path := ''a.t3x'', l_lazyLoaded := True,
     pic_w := 32, pic_h := 48\<rparr>"

definition pic_resident :: StdPicture where
  "pic_resident = pic_lazy\<lparr>d_texture := Some sheet_a, d_image := SheetImage sheet_a\<rparr>"

text \<open>The same lazy picture declared 3000 pixels high; its overflow file a.t3x1 does not
  exist in \<open>env_a\<close>.\<close>

definition pic_tall :: StdPicture where
  "pic_tall = pic_lazy\<lparr>pic_h := 3000\<rparr>"

text \<open>File systems: a well-formed sidecar for 32 by 48, a sidecar that holds no digits, and
  no sidecar.\<close>

definition fs_good :: "string \<Rightarrow> string option" where
  "fs_good p = (if p = ''a.t3x.size'' then Some (sidecar_bytes 32 48) else None)"

definition fs_bad :: "string \<Rightarrow> string option" where
  "fs_bad p = (if p = ''a.t3x.size'' then Some (''abcd'' @ [CHR 0x0A] @ ''efgh'' @ [CHR 0x0A])
               else None)"

definition fs_none :: "string \<Rightarrow> string option" where
  "fs_none p = None"

definition junk0 :: "nat \<Rightarrow> char" where
  "junk0 i = CHR ''?''"

text \<open>Blits: a 16 by 16 sprite taken at source row \<open>y\<close> of the picture, drawn unscaled,
  unrotated and with no flip requested; and a blit of 200 source rows from row 900 onto a
  destination 400 high.\<close>

definition blit_at :: "int \<Rightarrow> blit" where
  "blit_at y = \<lparr>xDst = 0, yDst = 0, wDst = 16, hDst = 16, xSrc = 0, ySrc = y, wSrc = 16,
     hSrc = 16, rotateAngle = 0, center = None, flip = 0, red = 1, green = 1, blue = 1,
     alpha = 1\<rparr>"

definition blit_cross :: blit where
  "blit_cross = \<lparr>xDst = 0, yDst = 0, wDst = 16, hDst = 400, xSrc = 0, ySrc = 900, wSrc = 16,
     hSrc = 200, rotateAngle = 0, center = None, flip = 0, red = 1, green = 1, blue = 1,
     alpha = 1\<rparr>"

text \<open>The resident picture declared 64 high (half-height 32), and a resident picture
  declared 6000 high with its second band bound and its third band absent.\<close>

definition pic_64 :: StdPicture where
  "pic_64 = pic_resident\<lparr>pic_h := 64\<rparr>"

definition sheet_a1 :: sheet where
  "sheet_a1 = \<lparr>sheet_path = ''a.t3x1'', subtex_width = 16, subtex_height = 1024\<rparr>"

definition pic_bands :: StdPicture where
  "pic_bands = pic_resident\<lparr>pic_h := 6000, d_texture2 := Some sheet_a1,
     d_image2 := SheetImage sheet_a1\<rparr>"

text \<open>A state inside a frame.\<close>

definition state_in_frame :: "test_env render_state" where
  "state_in_frame = (state0 env_a)\<lparr>g_in_frame := True\<rparr>"




text \<open>The lazy picture for a.t3x as the sidecar 0000/5000 declares it: 0 wide, 5000 high.\<close>

definition pic_w0 :: StdPicture where
  "pic_w0 = StdPicture_new\<lparr>inited := True, l_path := ''a.t3x'', l_lazyLoaded := True,
     pic_w := 0, pic_h := 5000\<rparr>"

definition fs_w0 :: "string \<Rightarrow> string option" where
  "fs_w0 p = (if p = ''a.t3x.size'' then Some (sidecar_bytes 0 5000) else None)"

text \<open>
  A picture declared 6000 high whose first overflow file a.t3x1 is missing while the second,
  a.t3x2, exists: the lazy picture, the backend state, and the picture as \<open>lazyLoad\<close>
  leaves it, with the second band null and the third bound.  \<open>blit_2048\<close> takes the 100
  source rows from row 2000, across row 2048, onto a destination 50 high.
\<close>

definition sheet_a2 :: sheet where
  "sheet_a2 = \<lparr>sheet_path = ''a.t3x2'', subtex_width = 16, subtex_height = 952\<rparr>"

definition env_a3 :: test_env where
  "env_a3 = \<lparr>te_sheets = [(''a.t3x'', sheet_a), (''a.t3x2'', sheet_a2)], te_free = 8000000\<rparr>"

definition pic_6000 :: StdPicture where
  "pic_6000 = pic_lazy\<lparr>pic_h := 6000\<rparr>"

definition pic_band3 :: StdPicture where
  "pic_band3 = pic_6000\<lparr>d_texture := Some sheet_a, d_image := SheetImage sheet_a,
     d_texture3 := Some sheet_a2, d_image3 := SheetImage sheet_a2\<rparr>"

definition blit_2048 :: blit where
  "blit_2048 = \<lparr>xDst = 0, yDst = 0, wDst = 16, hDst = 50, xSrc = 0, ySrc = 2000, wSrc = 16,
     hSrc = 100, rotateAngle = 0, center = None, flip = 0, red = 1, green = 1, blue = 1,
     alpha = 1\<rparr>"

section \<open>OpenWorld stays within the array bounds\<close>

lemma new_writes_ok_refl: "new_writes_ok L s s"
  by (simp add: new_writes_ok_def)

lemma new_writes_ok_trans:
  "new_writes_ok L s t \<Longrightarrow> new_writes_ok L t u \<Longrightarrow> new_writes_ok L s u"
  by (auto simp: new_writes_ok_def)

lemma new_writes_ok_same: "writes t = writes s \<Longrightarrow> new_writes_ok L s t"
  by (simp add: new_writes_ok_def)

lemma fold_ext:
  assumes "\<And>x s. x \<in> set xs \<Longrightarrow> new_writes_ok L s (f x s) \<and> same_counts s (f x s)"
  shows "new_writes_ok L s (fold f xs s) \<and> same_counts s (fold f xs s)"
  using assms
proof (induction xs arbitrary: s)
  case Nil
  show ?case by (simp add: new_writes_ok_refl same_counts_def)
next
  case (Cons x xs)
  have a: "new_writes_ok L s (f x s) \<and> same_counts s (f x s)"
    using Cons.prems by simp
  have b: "new_writes_ok L (f x s) (fold f xs (f x s)) \<and> same_counts (f x s) (fold f xs (f x s))"
    using Cons.prems by (intro Cons.IH) simp
  from a b show ?case
    by (auto intro: new_writes_ok_trans simp: same_counts_def)
qed

lemma set_Tile_ext:
  "1 \<le> i \<Longrightarrow> i \<le> maxTiles L \<Longrightarrow>
   new_writes_ok L s (set_Tile i v s) \<and> same_counts s (set_Tile i v s)"
  by (simp add: new_writes_ok_def write_ok_def arr_max_def set_Tile_def same_counts_def)

lemma set_Scene_ext:
  "1 \<le> i \<Longrightarrow> i \<le> maxScenes L \<Longrightarrow>
   new_writes_ok L s (set_Scene i v s) \<and> same_counts s (set_Scene i v s)"
  by (simp add: new_writes_ok_def write_ok_def arr_max_def set_Scene_def same_counts_def)

lemma set_WorldPath_ext:
  "1 \<le> i \<Longrightarrow> i \<le> maxWorldPaths L \<Longrightarrow>
   new_writes_ok L s (set_WorldPath i v s) \<and> same_counts s (set_WorldPath i v s)"
  by (simp add: new_writes_ok_def write_ok_def arr_max_def set_WorldPath_def same_counts_def)

lemma set_WorldLevel_ext:
  "1 \<le> i \<Longrightarrow> i \<le> maxWorldLevels L \<Longrightarrow>
   new_writes_ok L s (set_WorldLevel i v s) \<and> same_counts s (set_WorldLevel i v s)"
  by (simp add: new_writes_ok_def write_ok_def arr_max_def set_WorldLevel_def same_counts_def)

lemma set_WorldMusic_ext:
  "1 \<le> i \<Longrightarrow> i \<le> maxWorldMusic L \<Longrightarrow>
   new_writes_ok L s (set_WorldMusic i v s) \<and> same_counts s (set_WorldMusic i v s)"
  by (simp add: new_writes_ok_def write_ok_def arr_max_def set_WorldMusic_def same_counts_def)

lemma ClearWorld_ok:
  assumes "counts_ok L s"
  shows "new_writes_ok L s (ClearWorld s)"
proof -
  define s1 where "s1 = fold (\<lambda>A s. set_Tile A blankTile s) [1 .. numTiles s] s"
  define s2 where "s2 = fold (\<lambda>A s. set_WorldPath A blankPath s) [1 .. numWorldPaths s1] s1"
  define s3 where "s3 = fold (\<lambda>A s. set_Scene A blankScene s) [1 .. numScenes s2] s2"
  define s4 where "s4 = fold (\<lambda>A s. set_WorldLevel A blankLevel s) [1 .. numWorldLevels s3] s3"
  define s5 where "s5 = fold (\<lambda>A s. set_WorldMusic A blankMusic s) [1 .. numWorldMusic s4] s4"
  have 1: "new_writes_ok L s s1 \<and> same_counts s s1"
    unfolding s1_def using assms
    by (intro fold_ext set_Tile_ext) (simp_all add: counts_ok_def)
  have 2: "new_writes_ok L s1 s2 \<and> same_counts s1 s2"
    unfolding s2_def using assms 1
    by (intro fold_ext set_WorldPath_ext) (simp_all add: counts_ok_def same_counts_def)
  have 3: "new_writes_ok L s2 s3 \<and> same_counts s2 s3"
    unfolding s3_def using assms 1 2
    by (intro fold_ext set_Scene_ext) (simp_all add: counts_ok_def same_counts_def)
  have 4: "new_writes_ok L s3 s4 \<and> same_counts s3 s4"
    unfolding s4_def using assms 1 2 3
    by (intro fold_ext set_WorldLevel_ext) (simp_all add: counts_ok_def same_counts_def)
  have 5: "new_writes_ok L s4 s5 \<and> same_counts s4 s5"
    unfolding s5_def using assms 1 2 3 4
    by (intro fold_ext set_WorldMusic_ext) (simp_all add: counts_ok_def same_counts_def)
  have "new_writes_ok L s s5"
    using 1 2 3 4 5 by (blast intro: new_writes_ok_trans)
  moreover have "ClearWorld s = s5\<lparr>numTiles := 0, numWorldPaths := 0, numScenes := 0,
      numWorldLevels := 0, numWorldMusic := 0\<rparr>"
    by (simp add: ClearWorld_def Let_def s1_def s2_def s3_def s4_def s5_def)
  ultimately show ?thesis
    by (simp add: new_writes_ok_def)
qed

lemma ClearWorld_counts:
  "numTiles (ClearWorld s) = 0 \<and> numScenes (ClearWorld s) = 0 \<and> numWorldPaths (ClearWorld s) = 0
   \<and> numWorldLevels (ClearWorld s) = 0 \<and> numWorldMusic (ClearWorld s) = 0"
  by (simp add: ClearWorld_def Let_def)

text \<open>One iteration of each loading loop that does not leave the loop.\<close>

lemma tile_step:
  assumes "counts_inv L s" and "\<not> numTiles s + 1 > maxTiles L"
  shows "new_writes_ok L s (set_Tile (numTiles s + 1) v (s\<lparr>numTiles := numTiles s + 1\<rparr>)) \<and>
         counts_inv L (set_Tile (numTiles s + 1) v (s\<lparr>numTiles := numTiles s + 1\<rparr>))"
  using assms
  by (simp add: new_writes_ok_def write_ok_def arr_max_def set_Tile_def counts_inv_def
      counts_ok_def)

lemma scene_step:
  assumes "counts_inv L s" and "\<not> numScenes s + 1 > maxScenes L"
  shows "new_writes_ok L s (set_Scene (numScenes s + 1) v (s\<lparr>numScenes := numScenes s + 1\<rparr>)) \<and>
         counts_inv L (set_Scene (numScenes s + 1) v (s\<lparr>numScenes := numScenes s + 1\<rparr>))"
  using assms
  by (simp add: new_writes_ok_def write_ok_def arr_max_def set_Scene_def counts_inv_def
      counts_ok_def)

lemma path_step:
  assumes "counts_inv L s" and "\<not> numWorldPaths s + 1 > maxWorldPaths L"
  shows "new_writes_ok L s
           (set_WorldPath (numWorldPaths s + 1) v (s\<lparr>numWorldPaths := numWorldPaths s + 1\<rparr>)) \<and>
         counts_inv L
           (set_WorldPath (numWorldPaths s + 1) v (s\<lparr>numWorldPaths := numWorldPaths s + 1\<rparr>))"
  using assms
  by (simp add: new_writes_ok_def write_ok_def arr_max_def set_WorldPath_def counts_inv_def
      counts_ok_def)

lemma level_step:
  assumes "counts_inv L s" and "\<not> numWorldLevels s + 1 > maxWorldLevels L"
  shows "new_writes_ok L s
           (set_WorldLevel (numWorldLevels s + 1) v (s\<lparr>numWorldLevels := numWorldLevels s + 1\<rparr>)) \<and>
         counts_inv L
           (set_WorldLevel (numWorldLevels s + 1) v (s\<lparr>numWorldLevels := numWorldLevels s + 1\<rparr>))"
  using assms
  by (simp add: new_writes_ok_def write_ok_def arr_max_def set_WorldLevel_def counts_inv_def
      counts_ok_def)

lemma music_step:
  assumes "counts_inv L s" and "\<not> numWorldMusic s + 1 > maxWorldMusic L"
  shows "new_writes_ok L s
           (set_WorldMusic (numWorldMusic s + 1) v (s\<lparr>numWorldMusic := numWorldMusic s + 1\<rparr>)) \<and>
         counts_inv L
           (set_WorldMusic (numWorldMusic s + 1) v (s\<lparr>numWorldMusic := numWorldMusic s + 1\<rparr>))"
  using assms
  by (simp add: new_writes_ok_def write_ok_def arr_max_def set_WorldMusic_def counts_inv_def
      counts_ok_def)

lemma load_tiles_ok:
  "counts_inv L s \<Longrightarrow>
   new_writes_ok L s (load_tiles L T ts s) \<and> counts_inv L (load_tiles L T ts s)"
proof (induction ts arbitrary: s)
  case Nil
  then show ?case by (simp add: new_writes_ok_refl)
next
  case (Cons t ts)
  show ?case
  proof (cases "numTiles s + 1 > maxTiles L")
    case True
    with Cons.prems show ?thesis
      by (simp add: Let_def new_writes_ok_same counts_inv_def counts_ok_def)
  next
    case False
    then obtain v where eq: "load_tiles L T (t # ts) s =
        load_tiles L T ts (set_Tile (numTiles s + 1) v (s\<lparr>numTiles := numTiles s + 1\<rparr>))"
      by (simp add: Let_def)
    from tile_step[OF Cons.prems False, of v] Cons.IH show ?thesis
      unfolding eq by (blast intro: new_writes_ok_trans)
  qed
qed

lemma load_scenery_ok:
  "counts_inv L s \<Longrightarrow>
   new_writes_ok L s (load_scenery L T cs s) \<and> counts_inv L (load_scenery L T cs s)"
proof (induction cs arbitrary: s)
  case Nil
  then show ?case by (simp add: new_writes_ok_refl)
next
  case (Cons c cs)
  show ?case
  proof (cases "numScenes s + 1 > maxScenes L")
    case True
    with Cons.prems show ?thesis
      by (simp add: Let_def new_writes_ok_same counts_inv_def counts_ok_def)
  next
    case False
    then obtain v where eq: "load_scenery L T (c # cs) s =
        load_scenery L T cs (set_Scene (numScenes s + 1) v (s\<lparr>numScenes := numScenes s + 1\<rparr>))"
      by (simp add: Let_def)
    from scene_step[OF Cons.prems False, of v] Cons.IH show ?thesis
      unfolding eq by (blast intro: new_writes_ok_trans)
  qed
qed

lemma load_paths_ok:
  "counts_inv L s \<Longrightarrow>
   new_writes_ok L s (load_paths L ps s) \<and> counts_inv L (load_paths L ps s)"
proof (induction ps arbitrary: s)
  case Nil
  then show ?case by (simp add: new_writes_ok_refl)
next
  case (Cons p ps)
  show ?case
  proof (cases "numWorldPaths s + 1 > maxWorldPaths L")
    case True
    with Cons.prems show ?thesis
      by (simp add: Let_def new_writes_ok_same counts_inv_def counts_ok_def)
  next
    case False
    then obtain v where eq: "load_paths L (p # ps) s =
        load_paths L ps
          (set_WorldPath (numWorldPaths s + 1) v (s\<lparr>numWorldPaths := numWorldPaths s + 1\<rparr>))"
      by (simp add: Let_def)
    from path_step[OF Cons.prems False, of v] Cons.IH show ?thesis
      unfolding eq by (blast intro: new_writes_ok_trans)
  qed
qed

lemma load_levels_ok:
  "counts_inv L s \<Longrightarrow>
   new_writes_ok L s (load_levels L ls s) \<and> counts_inv L (load_levels L ls s)"
proof (induction ls arbitrary: s)
  case Nil
  then show ?case by (simp add: new_writes_ok_refl)
next
  case (Cons l ls)
  show ?case
  proof (cases "numWorldLevels s + 1 > maxWorldLevels L")
    case True
    with Cons.prems show ?thesis
      by (simp add: Let_def new_writes_ok_same counts_inv_def counts_ok_def)
  next
    case False
    then obtain v where eq: "load_levels L (l # ls) s =
        load_levels L ls
          (set_WorldLevel (numWorldLevels s + 1) v (s\<lparr>numWorldLevels := numWorldLevels s + 1\<rparr>))"
      by (simp add: Let_def)
    from level_step[OF Cons.prems False, of v] Cons.IH show ?thesis
      unfolding eq by (blast intro: new_writes_ok_trans)
  qed
qed

lemma load_music_ok:
  "counts_inv L s \<Longrightarrow>
   new_writes_ok L s (load_music L ms s) \<and> counts_inv L (load_music L ms s)"
proof (induction ms arbitrary: s)
  case Nil
  then show ?case by (simp add: new_writes_ok_refl)
next
  case (Cons m ms)
  show ?case
  proof (cases "numWorldMusic s + 1 > maxWorldMusic L")
    case True
    with Cons.prems show ?thesis
      by (simp add: Let_def new_writes_ok_same counts_inv_def counts_ok_def)
  next
    case False
    then obtain v where eq: "load_music L (m # ms) s =
        load_music L ms
          (set_WorldMusic (numWorldMusic s + 1) v (s\<lparr>numWorldMusic := numWorldMusic s + 1\<rparr>))"
      by (simp add: Let_def)
    from music_step[OF Cons.prems False, of v] Cons.IH show ?thesis
      unfolding eq by (blast intro: new_writes_ok_trans)
  qed
qed

lemma activate_start_levels_ok:
  assumes "counts_inv L s"
  shows "new_writes_ok L s (activate_start_levels s) \<and> counts_inv L (activate_start_levels s)"
proof -
  let ?f = "\<lambda>A s. if level_Type (WorldLevel s A) = 1
                  then set_WorldLevel A ((WorldLevel s A)\<lparr>level_Active := True\<rparr>) s else s"
  have step: "new_writes_ok L u (?f x u) \<and> same_counts u (?f x u)"
    if "x \<in> set [1 .. numWorldLevels s]" for x u
  proof (cases "level_Type (WorldLevel u x) = 1")
    case True
    from that assms have "1 \<le> x" "x \<le> maxWorldLevels L"
      by (simp_all add: counts_inv_def counts_ok_def)
    then show ?thesis using True set_WorldLevel_ext by simp
  next
    case False
    then show ?thesis by (simp add: new_writes_ok_refl same_counts_def)
  qed
  have "new_writes_ok L s (fold ?f [1 .. numWorldLevels s] s) \<and>
        same_counts s (fold ?f [1 .. numWorldLevels s] s)"
    by (rule fold_ext) (rule step)
  then show ?thesis
    using assms by (simp add: activate_start_levels_def same_counts_def counts_inv_def counts_ok_def)
qed

text \<open>
  Claim C10.  Whatever lists of tiles, scenery, paths, levels and music markers the world
  file supplies, every array entry OpenWorld writes has an index between 1 and the
  array's maximum, and on return each of numTiles, numScenes, numWorldPaths,
  numWorldLevels, numWorldMusic is at most its maximum.  The maxima are non-negative and
  the counters left by the previous world are within them (ClearWorld walks the arrays up
  to the old counters).
\<close>

theorem OpenWorld_within_bounds:
  assumes "limits_ok L" and "counts_ok L s"
  shows "new_writes_ok L s (OpenWorld L T wld s) \<and> counts_ok L (OpenWorld L T wld s)"
proof -
  define s2 where "s2 = (ClearWorld s)\<lparr>numTiles := 0, numScenes := 0, numWorldLevels := 0,
      numWorldPaths := 0, numWorldMusic := 0\<rparr>"
  define s3 where "s3 = load_tiles L T (wld_tiles wld) s2"
  define s4 where "s4 = load_scenery L T (wld_scenery wld) s3"
  define s5 where "s5 = load_paths L (wld_paths wld) s4"
  define s6 where "s6 = load_levels L (wld_levels wld) s5"
  define s7 where "s7 = load_music L (wld_music wld) s6"
  have ow: "OpenWorld L T wld s = activate_start_levels s7"
    by (simp add: OpenWorld_def Let_def s2_def s3_def s4_def s5_def s6_def s7_def)
  have w2: "new_writes_ok L s s2"
    using ClearWorld_ok[OF assms(2)] by (simp add: s2_def new_writes_ok_def)
  have i2: "counts_inv L s2"
    using assms(1) by (simp add: s2_def counts_inv_def counts_ok_def limits_ok_def)
  have 3: "new_writes_ok L s2 s3 \<and> counts_inv L s3"
    unfolding s3_def using i2 by (rule load_tiles_ok)
  have 4: "new_writes_ok L s3 s4 \<and> counts_inv L s4"
    unfolding s4_def using 3 by (intro load_scenery_ok) simp
  have 5: "new_writes_ok L s4 s5 \<and> counts_inv L s5"
    unfolding s5_def using 4 by (intro load_paths_ok) simp
  have 6: "new_writes_ok L s5 s6 \<and> counts_inv L s6"
    unfolding s6_def using 5 by (intro load_levels_ok) simp
  have 7: "new_writes_ok L s6 s7 \<and> counts_inv L s7"
    unfolding s7_def using 6 by (intro load_music_ok) simp
  have 8: "new_writes_ok L s7 (activate_start_levels s7) \<and> counts_inv L (activate_start_levels s7)"
    using 7 by (intro activate_start_levels_ok) simp
  have "new_writes_ok L s (activate_start_levels s7)"
    using w2 3 4 5 6 7 8 by (blast intro: new_writes_ok_trans)
  then show ?thesis
    using 8 by (simp add: ow counts_inv_def)
qed

theorem OpenWorld_within_bounds_witness:
  "limits_ok L0 \<and> counts_ok L0 world0 \<and>
   new_writes_ok L0 world0 (OpenWorld L0 T0 wld0 world0) \<and>
   counts_ok L0 (OpenWorld L0 T0 wld0 world0)"
  using OpenWorld_within_bounds[of L0 world0 T0 wld0]
  by (simp add: limits_ok_def counts_ok_def L0_def world0_def)

section \<open>Texture loading: proofs\<close>

lemma sheet_load_calls:
  "sheet_load be p s = (r, s') \<Longrightarrow> calls s' = calls s @ [SpriteSheetLoad p (r \<noteq> None)]"
  by (auto simp: sheet_load_def emit_def split: prod.splits)

lemma load_paths_of_append: "load_paths_of (xs @ ys) = load_paths_of xs @ load_paths_of ys"
  by (induction xs rule: load_paths_of.induct) simp_all

lemma tryHard_calls:
  assumes "s_tryHardToLoadC2D_SpriteSheet be p s = (r, s')"
  shows "\<exists>cs. calls s' = calls s @ cs \<and> p \<in> set (load_paths_of cs) \<and>
           (SpriteSheetLoad p True \<in> set cs \<longleftrightarrow> r \<noteq> None) \<and>
           set cs \<subseteq> {SpriteSheetLoad p False, SpriteSheetLoad p True, freeTextureMemory}"
proof (cases "sheet_load be p s")
  case (Pair r1 s1)
  note c1 = sheet_load_calls[OF Pair]
  show ?thesis
  proof (cases r1)
    case (Some sh)
    with Pair assms have "r = Some sh" "s' = s1"
      by (simp_all add: s_tryHardToLoadC2D_SpriteSheet_def)
    with c1 Some show ?thesis by simp
  next
    case None
    define s2 where "s2 = (if linearSpaceFree be (env s1) < 4000000 then free_texture_memory be s1 else s1)"
    have r2: "sheet_load be p s2 = (r, s')"
      using Pair None assms by (simp add: s_tryHardToLoadC2D_SpriteSheet_def s2_def)
    have c2: "calls s2 = calls s1 @ (if linearSpaceFree be (env s1) < 4000000 then [freeTextureMemory] else [])"
      by (simp add: s2_def free_texture_memory_def emit_def)
    from sheet_load_calls[OF r2] c1 c2 None show ?thesis
      by (cases r) auto
  qed
qed

lemma band2_props:
  assumes "lazyLoad_band2 be (t, s) = (t', s')"
  shows "\<exists>cs. calls s' = calls s @ cs \<and>
     set cs \<subseteq> {SpriteSheetLoad (l_path t @ ''1'') False, SpriteSheetLoad (l_path t @ ''1'') True,
                freeTextureMemory, pLogWarning ''Permanently failed to load %s, %lu free'',
                pLogWarning ''Error: %d (%s)''} \<and>
     (2048 < pic_h t \<longrightarrow> l_path t @ ''1'' \<in> set (load_paths_of cs)) \<and>
     (if SpriteSheetLoad (l_path t @ ''1'') True \<in> set cs
      then \<exists>sh2. t' = s_loadTexture2 sh2 t
      else t' = t \<and> (2048 < pic_h t \<longrightarrow>
             pLogWarning ''Permanently failed to load %s, %lu free'' \<in> set cs))"
proof (cases "2048 < pic_h t")
  case False
  with assms show ?thesis by (simp add: lazyLoad_band2_def)
next
  case True
  obtain r s1 where r: "s_tryHardToLoadC2D_SpriteSheet be (l_path t @ ''1'') s = (r, s1)"
    by (cases "s_tryHardToLoadC2D_SpriteSheet be (l_path t @ ''1'') s")
  from tryHard_calls[OF r] obtain cs where cs: "calls s1 = calls s @ cs"
    "l_path t @ ''1'' \<in> set (load_paths_of cs)"
    "SpriteSheetLoad (l_path t @ ''1'') True \<in> set cs \<longleftrightarrow> r \<noteq> None"
    "set cs \<subseteq> {SpriteSheetLoad (l_path t @ ''1'') False, SpriteSheetLoad (l_path t @ ''1'') True, freeTextureMemory}"
    by blast
  show ?thesis
  proof (cases r)
    case None
    with assms True r have "t' = t" "calls s' = calls s1 @ [pLogWarning ''Permanently failed to load %s, %lu free'',
                pLogWarning ''Error: %d (%s)'']"
      by (auto simp: lazyLoad_band2_def emits_def)
    with cs None True show ?thesis
      by (intro exI[of _ "cs @ [pLogWarning ''Permanently failed to load %s, %lu free'',
                pLogWarning ''Error: %d (%s)'']"]) (auto simp: load_paths_of_append)
  next
    case (Some sh2)
    with assms True r have "t' = s_loadTexture2 sh2 t" "s' = s1"
      by (auto simp: lazyLoad_band2_def)
    with cs Some True show ?thesis
      by (intro exI[of _ cs]) auto
  qed
qed

lemma band3_props:
  assumes "lazyLoad_band3 be (t, s) = (t', s')"
  shows "\<exists>cs. calls s' = calls s @ cs \<and>
     set cs \<subseteq> {SpriteSheetLoad (l_path t @ ''2'') False, SpriteSheetLoad (l_path t @ ''2'') True,
                pLogWarning ''Permanently failed to load %s, %lu free'',
                pLogWarning ''Error: %d (%s)''} \<and>
     (4096 < pic_h t \<longrightarrow> l_path t @ ''2'' \<in> set (load_paths_of cs)) \<and>
     (if SpriteSheetLoad (l_path t @ ''2'') True \<in> set cs
      then \<exists>sh3. t' = s_loadTexture3 sh3 t
      else t' = t \<and> (4096 < pic_h t \<longrightarrow>
             pLogWarning ''Permanently failed to load %s, %lu free'' \<in> set cs))"
proof (cases "4096 < pic_h t")
  case False
  with assms show ?thesis by (simp add: lazyLoad_band3_def)
next
  case True
  obtain r s1 where r: "sheet_load be (l_path t @ ''2'') s = (r, s1)"
    by (cases "sheet_load be (l_path t @ ''2'') s")
  note cs = sheet_load_calls[OF r]
  show ?thesis
  proof (cases r)
    case None
    with assms True r have "t' = t" "calls s' = calls s1 @ [pLogWarning ''Permanently failed to load %s, %lu free'',
                pLogWarning ''Error: %d (%s)'']"
      by (auto simp: lazyLoad_band3_def emits_def)
    with cs None True show ?thesis
      by (intro exI[of _ "[SpriteSheetLoad (l_path t @ ''2'') False, pLogWarning ''Permanently failed to load %s, %lu free'',
                pLogWarning ''Error: %d (%s)'']"]) auto
  next
    case (Some sh3)
    with assms True r have "t' = s_loadTexture3 sh3 t" "s' = s1"
      by (auto simp: lazyLoad_band3_def)
    with cs Some True show ?thesis
      by (intro exI[of _ "[SpriteSheetLoad (l_path t @ ''2'') True]"]) auto
  qed
qed

lemma low_memory_check_calls:
  "\<exists>cs. calls (low_memory_check be s) = calls s @ cs \<and>
     set cs \<subseteq> {pLogDebug ''Triggering free texture memory due to low memory (%u bytes)'', freeTextureMemory}"
  by (simp add: low_memory_check_def free_texture_memory_def emit_def)

lemma load_paths_of_mem:
  "q \<in> set (load_paths_of cs) \<Longrightarrow> \<exists>ok. SpriteSheetLoad q ok \<in> set cs"
  by (induction cs rule: load_paths_of.induct) auto

lemma band2_none: "\<not> 2048 < pic_h t \<Longrightarrow> lazyLoad_band2 be (t, s) = (t, s)"
  by (simp add: lazyLoad_band2_def)

lemma band3_none: "\<not> 4096 < pic_h t \<Longrightarrow> lazyLoad_band3 be (t, s) = (t, s)"
  by (simp add: lazyLoad_band3_def)

text \<open>
  The shape of a lazyLoad call whose primary sheet loads: after the calls of the primary
  load come those of the second-band block, of the third-band block and of the closing
  low-memory check.  A block whose height test fails adds no call.
\<close>

lemma lazyLoad_success_shape:
  assumes "inited t" and "l_lazyLoaded t" and "d_texture t = None"
    and "s_tryHardToLoadC2D_SpriteSheet be (l_path t) s = (Some sh, s1)"
    and "lazyLoad be (t, s) = (t', s')"
    and "t1 = s_loadTexture sh t"
  shows "\<exists>t2 cs2 cs3 tl. calls s' = calls s1 @ cs2 @ cs3 @ tl \<and>
     set cs2 \<subseteq> {SpriteSheetLoad (l_path t @ ''1'') False, SpriteSheetLoad (l_path t @ ''1'') True,
                freeTextureMemory, pLogWarning ''Permanently failed to load %s, %lu free'',
                pLogWarning ''Error: %d (%s)''} \<and>
     set cs3 \<subseteq> {SpriteSheetLoad (l_path t @ ''2'') False, SpriteSheetLoad (l_path t @ ''2'') True,
                pLogWarning ''Permanently failed to load %s, %lu free'',
                pLogWarning ''Error: %d (%s)''} \<and>
     set tl \<subseteq> {pLogDebug ''Triggering free texture memory due to low memory (%u bytes)'',
               freeTextureMemory} \<and>
     (2048 < pic_h t1 \<longrightarrow> l_path t @ ''1'' \<in> set (load_paths_of cs2)) \<and>
     (\<not> 2048 < pic_h t1 \<longrightarrow> cs2 = []) \<and>
     (4096 < pic_h t1 \<longrightarrow> l_path t @ ''2'' \<in> set (load_paths_of cs3)) \<and>
     (\<not> 4096 < pic_h t1 \<longrightarrow> cs3 = []) \<and>
     (if SpriteSheetLoad (l_path t @ ''1'') True \<in> set cs2
      then \<exists>sh2. t2 = s_loadTexture2 sh2 t1
      else t2 = t1 \<and> (2048 < pic_h t1 \<longrightarrow>
             pLogWarning ''Permanently failed to load %s, %lu free'' \<in> set cs2)) \<and>
     (if SpriteSheetLoad (l_path t @ ''2'') True \<in> set cs3
      then \<exists>sh3. t' = s_loadTexture3 sh3 t2
      else t' = t2 \<and> (4096 < pic_h t1 \<longrightarrow>
             pLogWarning ''Permanently failed to load %s, %lu free'' \<in> set cs3))"
proof -
  obtain t2 s2 where b2: "lazyLoad_band2 be (t1, s1) = (t2, s2)"
    by (cases "lazyLoad_band2 be (t1, s1)")
  obtain t3 s3 where b3: "lazyLoad_band3 be (t2, s2) = (t3, s3)"
    by (cases "lazyLoad_band3 be (t2, s2)")
  have res: "t' = t3"
    "s' = low_memory_check be (s3\<lparr>s_num_textures_loaded := s_num_textures_loaded s3 + 1\<rparr>)"
    using assms(1-5) b2 b3 by (simp_all add: lazyLoad_def assms(6))
  have p1: "l_path t1 = l_path t"
    by (simp add: assms(6) s_loadTexture_def Let_def)
  from band2_props[OF b2] obtain cs2 where cs2: "calls s2 = calls s1 @ cs2"
    "set cs2 \<subseteq> {SpriteSheetLoad (l_path t @ ''1'') False, SpriteSheetLoad (l_path t @ ''1'') True,
                freeTextureMemory, pLogWarning ''Permanently failed to load %s, %lu free'',
                pLogWarning ''Error: %d (%s)''}"
    "2048 < pic_h t1 \<longrightarrow> l_path t @ ''1'' \<in> set (load_paths_of cs2)"
    "if SpriteSheetLoad (l_path t @ ''1'') True \<in> set cs2
      then \<exists>sh2. t2 = s_loadTexture2 sh2 t1
      else t2 = t1 \<and> (2048 < pic_h t1 \<longrightarrow>
             pLogWarning ''Permanently failed to load %s, %lu free'' \<in> set cs2)"
    unfolding p1 by blast
  have e2: "\<not> 2048 < pic_h t1 \<longrightarrow> cs2 = []"
    using band2_none[of t1 be s1] b2 cs2(1) by auto
  have t2: "pic_h t2 = pic_h t1" "l_path t2 = l_path t"
    using cs2(4) p1 by (auto simp: s_loadTexture2_def split: if_splits)
  from band3_props[OF b3] obtain cs3 where cs3: "calls s3 = calls s2 @ cs3"
    "set cs3 \<subseteq> {SpriteSheetLoad (l_path t @ ''2'') False, SpriteSheetLoad (l_path t @ ''2'') True,
                pLogWarning ''Permanently failed to load %s, %lu free'',
                pLogWarning ''Error: %d (%s)''}"
    "4096 < pic_h t1 \<longrightarrow> l_path t @ ''2'' \<in> set (load_paths_of cs3)"
    "if SpriteSheetLoad (l_path t @ ''2'') True \<in> set cs3
      then \<exists>sh3. t3 = s_loadTexture3 sh3 t2
      else t3 = t2 \<and> (4096 < pic_h t1 \<longrightarrow>
             pLogWarning ''Permanently failed to load %s, %lu free'' \<in> set cs3)"
    unfolding t2 by blast
  have e3: "\<not> 4096 < pic_h t1 \<longrightarrow> cs3 = []"
    using band3_none[of t2 be s2] b3 cs3(1) t2(1) by auto
  from low_memory_check_calls[of be "s3\<lparr>s_num_textures_loaded := s_num_textures_loaded s3 + 1\<rparr>"]
  obtain tl where tl: "calls s' = calls s3 @ tl"
    "set tl \<subseteq> {pLogDebug ''Triggering free texture memory due to low memory (%u bytes)'',
               freeTextureMemory}"
    unfolding res by auto
  have c: "calls s' = calls s1 @ cs2 @ cs3 @ tl"
    by (simp add: tl cs3 cs2)
  show ?thesis
    apply (rule exI[of _ t2], rule exI[of _ cs2], rule exI[of _ cs3], rule exI[of _ tl])
    unfolding res(1)
    using c cs2(2,3,4) cs3(2,3,4) tl(2) e2 e3 by blast
qed



text \<open>
  Claim C9.  lazyLoad on a resource whose backend texture is bound returns at once: the
  resource, the backend state and the trace are unchanged, so no upload and no eviction
  pass takes place, however often it is called.
\<close>

theorem lazyLoad_resident_idempotent:
  assumes "d_texture target \<noteq> None"
  shows "lazyLoad be (target, s) = (target, s) \<and>
         lazyLoad be (lazyLoad be (target, s)) = (target, s)"
  using assms by (simp add: lazyLoad_def)

theorem lazyLoad_resident_idempotent_witness:
  "d_texture pic_resident \<noteq> None \<and>
   lazyLoad be_test (pic_resident, state0 env_a) = (pic_resident, state0 env_a) \<and>
   lazyLoad be_test (lazyLoad be_test (pic_resident, state0 env_a)) = (pic_resident, state0 env_a)"
  using lazyLoad_resident_idempotent[of pic_resident be_test "state0 env_a"]
  by (simp add: pic_resident_def)





text \<open>
  Claim C7, as the code has it.  For a lazy resource whose primary sheet loads, lazyLoad
  tests the height \<open>H\<close> the resource has after \<open>s_loadTexture\<close>: the declared height when
  the declared width is not 0, twice the height of the loaded image when the declared
  width is 0.  It tries the file path + "1" exactly when \<open>H\<close> exceeds 2048, and
  path + "2" exactly when \<open>H\<close> exceeds 4096.  An overflow band with no successful load
  keeps its handle null and logs a warning; the resource stays inited with the primary
  sheet bound, and every band that did load is bound.
\<close>

theorem lazyLoad_overflow_bands:
  assumes "inited t" and "l_lazyLoaded t"
    and "d_texture t = None" and "d_texture2 t = None" and "d_texture3 t = None"
    and "s_tryHardToLoadC2D_SpriteSheet be (l_path t) s = (Some sh, s1)"
    and "lazyLoad be (t, s) = (t', s')"
    and "H = (if pic_w t = 0 then int (subtex_height sh) * 2 else pic_h t)"
  shows "inited t' \<and> d_texture t' = Some sh \<and> pic_h t' = H \<and>
    (l_path t @ ''1'' \<in> set (load_paths_of (new_calls s1 s')) \<longleftrightarrow> 2048 < H) \<and>
    (l_path t @ ''2'' \<in> set (load_paths_of (new_calls s1 s')) \<longleftrightarrow> 4096 < H) \<and>
    (SpriteSheetLoad (l_path t @ ''1'') True \<notin> set (new_calls s1 s') \<longrightarrow>
       d_texture2 t' = None \<and>
       (2048 < H \<longrightarrow>
          pLogWarning ''Permanently failed to load %s, %lu free'' \<in> set (new_calls s1 s'))) \<and>
    (SpriteSheetLoad (l_path t @ ''2'') True \<notin> set (new_calls s1 s') \<longrightarrow>
       d_texture3 t' = None \<and>
       (4096 < H \<longrightarrow>
          pLogWarning ''Permanently failed to load %s, %lu free'' \<in> set (new_calls s1 s'))) \<and>
    (SpriteSheetLoad (l_path t @ ''1'') True \<in> set (new_calls s1 s') \<longrightarrow> d_texture2 t' \<noteq> None) \<and>
    (SpriteSheetLoad (l_path t @ ''2'') True \<in> set (new_calls s1 s') \<longrightarrow> d_texture3 t' \<noteq> None)"
proof -
  define t1 where "t1 = s_loadTexture sh t"
  have t1: "pic_h t1 = H" "inited t1" "d_texture t1 = Some sh"
    "d_texture2 t1 = None" "d_texture3 t1 = None"
    using assms(1,4,5) by (simp_all add: t1_def assms(8) s_loadTexture_def Let_def)
  from lazyLoad_success_shape[OF assms(1,2,3,6,7) t1_def]
  obtain t2 cs2 cs3 tl where sh: "calls s' = calls s1 @ cs2 @ cs3 @ tl"
    "set cs2 \<subseteq> {SpriteSheetLoad (l_path t @ ''1'') False, SpriteSheetLoad (l_path t @ ''1'') True,
                freeTextureMemory, pLogWarning ''Permanently failed to load %s, %lu free'',
                pLogWarning ''Error: %d (%s)''}"
    "set cs3 \<subseteq> {SpriteSheetLoad (l_path t @ ''2'') False, SpriteSheetLoad (l_path t @ ''2'') True,
                pLogWarning ''Permanently failed to load %s, %lu free'',
                pLogWarning ''Error: %d (%s)''}"
    "set tl \<subseteq> {pLogDebug ''Triggering free texture memory due to low memory (%u bytes)'',
               freeTextureMemory}"
    "2048 < H \<longrightarrow> l_path t @ ''1'' \<in> set (load_paths_of cs2)"
    "\<not> 2048 < H \<longrightarrow> cs2 = []"
    "4096 < H \<longrightarrow> l_path t @ ''2'' \<in> set (load_paths_of cs3)"
    "\<not> 4096 < H \<longrightarrow> cs3 = []"
    "if SpriteSheetLoad (l_path t @ ''1'') True \<in> set cs2
     then \<exists>sh2. t2 = s_loadTexture2 sh2 t1
     else t2 = t1 \<and> (2048 < H \<longrightarrow>
            pLogWarning ''Permanently failed to load %s, %lu free'' \<in> set cs2)"
    "if SpriteSheetLoad (l_path t @ ''2'') True \<in> set cs3
     then \<exists>sh3. t' = s_loadTexture3 sh3 t2
     else t' = t2 \<and> (4096 < H \<longrightarrow>
            pLogWarning ''Permanently failed to load %s, %lu free'' \<in> set cs3)"
    unfolding t1(1) by blast
  have t2: "pic_h t2 = H" "inited t2" "d_texture t2 = Some sh" "d_texture3 t2 = None"
    using sh(9) t1 by (auto simp: s_loadTexture2_def split: if_splits)
  have t2b: "SpriteSheetLoad (l_path t @ ''1'') True \<in> set cs2 \<longrightarrow> d_texture2 t2 \<noteq> None"
    "SpriteSheetLoad (l_path t @ ''1'') True \<notin> set cs2 \<longrightarrow> d_texture2 t2 = None"
    using sh(9) t1 by (auto simp: s_loadTexture2_def split: if_splits)
  have t3: "pic_h t' = H" "inited t'" "d_texture t' = Some sh" "d_texture2 t' = d_texture2 t2"
    using sh(10) t2 by (auto simp: s_loadTexture3_def split: if_splits)
  have t3b: "SpriteSheetLoad (l_path t @ ''2'') True \<in> set cs3 \<longrightarrow> d_texture3 t' \<noteq> None"
    "SpriteSheetLoad (l_path t @ ''2'') True \<notin> set cs3 \<longrightarrow> d_texture3 t' = None"
    using sh(10) t2 by (auto simp: s_loadTexture3_def split: if_splits)
  have nc: "new_calls s1 s' = cs2 @ cs3 @ tl"
    by (simp add: new_calls_def sh(1))
  have m1: "SpriteSheetLoad (l_path t @ ''1'') True \<in> set (new_calls s1 s') \<longleftrightarrow>
            SpriteSheetLoad (l_path t @ ''1'') True \<in> set cs2"
    unfolding nc using sh(3,4) by auto
  have m2: "SpriteSheetLoad (l_path t @ ''2'') True \<in> set (new_calls s1 s') \<longleftrightarrow>
            SpriteSheetLoad (l_path t @ ''2'') True \<in> set cs3"
    unfolding nc using sh(2,4) by auto
  have w2: "pLogWarning ''Permanently failed to load %s, %lu free'' \<in> set cs2 \<Longrightarrow>
            pLogWarning ''Permanently failed to load %s, %lu free'' \<in> set (new_calls s1 s')"
    and w3: "pLogWarning ''Permanently failed to load %s, %lu free'' \<in> set cs3 \<Longrightarrow>
            pLogWarning ''Permanently failed to load %s, %lu free'' \<in> set (new_calls s1 s')"
    unfolding nc by simp_all
  have notl: "q \<notin> set (load_paths_of tl)" for q
    using load_paths_of_mem[of q tl] sh(4) by auto
  have no2: "l_path t @ ''1'' \<notin> set (load_paths_of cs3)"
    using load_paths_of_mem[of "l_path t @ ''1''" cs3] sh(3) by auto
  have no1: "l_path t @ ''2'' \<notin> set (load_paths_of cs2)"
    using load_paths_of_mem[of "l_path t @ ''2''" cs2] sh(2) by auto
  have p1: "l_path t @ ''1'' \<in> set (load_paths_of (new_calls s1 s')) \<longleftrightarrow> 2048 < H"
    unfolding nc using sh(5,6) notl no2 by (auto simp: load_paths_of_append)
  have p2: "l_path t @ ''2'' \<in> set (load_paths_of (new_calls s1 s')) \<longleftrightarrow> 4096 < H"
    unfolding nc using sh(7,8) notl no1 by (auto simp: load_paths_of_append)
  have c2: "SpriteSheetLoad (l_path t @ ''1'') True \<notin> set cs2 \<longrightarrow> (2048 < H \<longrightarrow>
          pLogWarning ''Permanently failed to load %s, %lu free'' \<in> set (new_calls s1 s'))"
    using sh(9) w2 by (auto split: if_splits)
  have c3: "SpriteSheetLoad (l_path t @ ''2'') True \<notin> set cs3 \<longrightarrow> (4096 < H \<longrightarrow>
          pLogWarning ''Permanently failed to load %s, %lu free'' \<in> set (new_calls s1 s'))"
    using sh(10) w3 by (auto split: if_splits)
  show ?thesis
    unfolding m1 m2 p1 p2 using t3 t3b t2b c2 c3 by simp
qed

theorem lazyLoad_overflow_bands_witness:
  "inited (fst (lazyLoad be_test (pic_tall, state0 env_a))) \<and>
   d_texture (fst (lazyLoad be_test (pic_tall, state0 env_a))) = Some sheet_a \<and>
   pic_h (fst (lazyLoad be_test (pic_tall, state0 env_a))) = 3000 \<and>
   ''a.t3x1'' \<in> set (load_paths_of (calls (snd (lazyLoad be_test (pic_tall, state0 env_a))))) \<and>
   ''a.t3x2'' \<notin> set (load_paths_of (calls (snd (lazyLoad be_test (pic_tall, state0 env_a))))) \<and>
   d_texture2 (fst (lazyLoad be_test (pic_tall, state0 env_a))) = None \<and>
   pLogWarning ''Permanently failed to load %s, %lu free''
     \<in> set (calls (snd (lazyLoad be_test (pic_tall, state0 env_a))))"
proof -
  have a: "inited pic_tall" "l_lazyLoaded pic_tall" "d_texture pic_tall = None"
    "d_texture2 pic_tall = None" "d_texture3 pic_tall = None" "l_path pic_tall = ''a.t3x''"
    "pic_w pic_tall = 32" "pic_h pic_tall = 3000"
    by (simp_all add: pic_tall_def pic_lazy_def StdPicture_new_def)
  have th: "s_tryHardToLoadC2D_SpriteSheet be_test (l_path pic_tall) (state0 env_a) =
      (Some sheet_a, (state0 env_a)\<lparr>calls := [SpriteSheetLoad ''a.t3x'' True]\<rparr>)"
    by (simp add: a s_tryHardToLoadC2D_SpriteSheet_def sheet_load_def emit_def be_test_def
        state0_def env_a_def)
  have H: "3000 = (if pic_w pic_tall = 0 then int (subtex_height sheet_a) * 2 else pic_h pic_tall)"
    by (simp add: a)
  have l: "lazyLoad be_test (pic_tall, state0 env_a) =
      (fst (lazyLoad be_test (pic_tall, state0 env_a)),
       snd (lazyLoad be_test (pic_tall, state0 env_a)))"
    by simp
  have c: "calls (snd (lazyLoad be_test (pic_tall, state0 env_a))) =
     [SpriteSheetLoad ''a.t3x'' True, SpriteSheetLoad ''a.t3x1'' False,
      SpriteSheetLoad ''a.t3x1'' False,
      pLogWarning ''Permanently failed to load %s, %lu free'',
      pLogWarning ''Error: %d (%s)'']"
    by (simp add: lazyLoad_def lazyLoad_band2_def lazyLoad_band3_def low_memory_check_def
      s_tryHardToLoadC2D_SpriteSheet_def sheet_load_def emit_def emits_def
      free_texture_memory_def be_test_def pic_tall_def pic_lazy_def state0_def env_a_def
      StdPicture_new_def s_loadTexture_def s_loadTexture2_def sheet_a_def)
  have nc: "new_calls ((state0 env_a)\<lparr>calls := [SpriteSheetLoad ''a.t3x'' True]\<rparr>)
         (snd (lazyLoad be_test (pic_tall, state0 env_a))) =
     [SpriteSheetLoad ''a.t3x1'' False, SpriteSheetLoad ''a.t3x1'' False,
      pLogWarning ''Permanently failed to load %s, %lu free'',
      pLogWarning ''Error: %d (%s)'']"
    unfolding new_calls_def c by simp
  from lazyLoad_overflow_bands[OF a(1,2,3,4,5) th l H] show ?thesis
    unfolding c nc a(6) by simp
qed

text \<open>
  The claim as stated fails: the lazy resource declared 0 wide and 5000 high gets the
  height 48 from the loaded image, 16 by 24, before the height tests, and neither overflow
  file is tried.
\<close>

theorem lazyLoad_zero_width_counterexample:
  "pic_w pic_w0 = 0 \<and> pic_h pic_w0 = 5000 \<and> l_lazyLoaded pic_w0 \<and> inited pic_w0 \<and>
   calls (snd (lazyLoad be_test (pic_w0, state0 env_a))) = [SpriteSheetLoad ''a.t3x'' True] \<and>
   ''a.t3x1'' \<notin> set (load_paths_of (calls (snd (lazyLoad be_test (pic_w0, state0 env_a))))) \<and>
   ''a.t3x2'' \<notin> set (load_paths_of (calls (snd (lazyLoad be_test (pic_w0, state0 env_a))))) \<and>
   pic_h (fst (lazyLoad be_test (pic_w0, state0 env_a))) = 48"
proof -
  have 1: "pic_w pic_w0 = 0 \<and> pic_h pic_w0 = 5000 \<and> l_lazyLoaded pic_w0 \<and> inited pic_w0"
    by (simp add: pic_w0_def StdPicture_new_def)
  have l: "lazyLoad be_test (pic_w0, state0 env_a) =
     (pic_w0\<lparr>d_texture := Some sheet_a, d_image := SheetImage sheet_a, pic_w := 32, pic_h := 48\<rparr>,
      (state0 env_a)\<lparr>calls := [SpriteSheetLoad ''a.t3x'' True], s_num_textures_loaded := 1\<rparr>)"
    by (simp add: lazyLoad_def lazyLoad_band2_def lazyLoad_band3_def low_memory_check_def
      s_tryHardToLoadC2D_SpriteSheet_def sheet_load_def emit_def emits_def
      free_texture_memory_def be_test_def pic_w0_def state0_def env_a_def
      StdPicture_new_def s_loadTexture_def sheet_a_def)
  show ?thesis unfolding l using 1 by simp
qed

subsection \<open>The size sidecar\<close>

lemma of_char_digit_char: "(of_char (digit_char d) :: nat) = 48 + d mod 10"
proof -
  have "(48 + d mod 10) mod 256 = 48 + d mod 10"
    by (rule mod_less) (use mod_less_divisor[of 10 d] in linarith)
  then show ?thesis by (simp add: digit_char_def)
qed

lemma digit_char_props:
  "isdigit_c (digit_char d)" "\<not> isspace_c (digit_char d)" "digit_char d \<noteq> CHR 0x00"
  "digit_char d \<noteq> CHR ''-''" "digit_char d \<noteq> CHR ''+''"
proof -
  have e: "(of_char (digit_char d) :: nat) = 48 + d mod 10" by (rule of_char_digit_char)
  have ne: "digit_char d \<noteq> c" if "(of_char c :: nat) < 48" for c
    using that e by (metis add_lessD1 less_irrefl)
  show "isdigit_c (digit_char d)" using e by (simp add: isdigit_c_def)
  show "digit_char d \<noteq> CHR 0x00" by (rule ne) simp
  show "digit_char d \<noteq> CHR ''-''" by (rule ne) simp
  show "digit_char d \<noteq> CHR ''+''" by (rule ne) simp
  have "digit_char d \<noteq> CHR '' ''" by (rule ne) simp
  then show "\<not> isspace_c (digit_char d)" using e by (simp add: isspace_c_def)
qed

lemma digits_val_pad4:
  assumes "n < 10000"
  shows "digits_val 0 (pad4 n @ CHR 0x00 # rest) = n"
proof -
  have nd: "\<not> isdigit_c (CHR 0x00)" by (simp add: isdigit_c_def)
  have "digits_val 0 (pad4 n @ CHR 0x00 # rest) =
     10 * (10 * (10 * ((n div 1000) mod 10) + (n div 100) mod 10) + (n div 10) mod 10) + n mod 10"
    by (simp add: pad4_def digit_char_props of_char_digit_char nd)
  also have "\<dots> = n"
  proof -
    define a where "a = n div 10"
    define b where "b = a div 10"
    define c where "c = b div 10"
    have d: "n div 100 = b" "n div 1000 = c"
      by (simp_all add: a_def b_def c_def div_mult2_eq)
    have "c < 10" using assms unfolding d(2)[symmetric] by simp
    then have cm: "c mod 10 = c" by simp
    define n0 where "n0 = n mod 10"
    define a0 where "a0 = a mod 10"
    define b0 where "b0 = b mod 10"
    have "n = n0 + 10 * a" "a = a0 + 10 * b" "b = b0 + 10 * c"
      by (simp_all add: a_def b_def c_def n0_def a0_def b0_def)
    then have "10 * (10 * (10 * c + b0) + a0) + n0 = n"
      by (simp add: algebra_simps)
    then show ?thesis
      unfolding d cm a_def[symmetric] n0_def a0_def b0_def .
  qed
  finally show ?thesis .
qed

lemma atoi_pad4:
  assumes "n < 10000"
  shows "atoi (pad4 n @ CHR 0x00 # rest) = int n"
proof -
  have tw: "takeWhile (\<lambda>c. c \<noteq> CHR 0x00) (pad4 n @ CHR 0x00 # rest) = pad4 n"
    by (simp add: pad4_def digit_char_props)
  have dv: "digits_val 0 (pad4 n) = n"
  proof -
    have "digits_val 0 (pad4 n) = digits_val 0 (pad4 n @ CHR 0x00 # [])"
      by (simp add: pad4_def digit_char_props isdigit_c_def)
    then show ?thesis using digits_val_pad4[OF assms] by simp
  qed
  have "atoi (pad4 n @ CHR 0x00 # rest) = int (digits_val 0 (pad4 n))"
    unfolding atoi_def tw by (simp add: pad4_def digit_char_props)
  then show ?thesis using dv by simp
qed

lemma fread10_full: "length bytes = 10 \<Longrightarrow> fread10 bytes junk = bytes"
  by (simp add: fread10_def list_eq_iff_nth_eq)

lemma pad4_length: "length (pad4 n) = 4"
  by (simp add: pad4_def)

lemma sidecar_contents:
  "(fread10 (sidecar_bytes W H) junk)[4 := CHR 0x00, 9 := CHR 0x00] =
     pad4 W @ CHR 0x00 # pad4 H @ [CHR 0x00]"
proof -
  have "fread10 (sidecar_bytes W H) junk = sidecar_bytes W H"
    by (rule fread10_full) (simp add: sidecar_bytes_def pad4_def)
  then show ?thesis
    by (simp add: sidecar_bytes_def pad4_def)
qed

lemma sidecar_contents_drop:
  "drop 5 (pad4 W @ CHR 0x00 # pad4 H @ [CHR 0x00]) = pad4 H @ [CHR 0x00]"
  by (simp add: pad4_def)

text \<open>The sidecar 0000/5000 declares the lazy resource 0 wide and 5000 high.\<close>

lemma sidecar_zero_width:
  "lazyLoadPicture be_test fs_w0 junk0 ''a.t3x'' (state0 env_a) = (pic_w0, state0 env_a)"
proof -
  have g: "GameIsActive (state0 env_a)" by (simp add: state0_def)
  have f: "fs_w0 (''a.t3x'' @ ''.size'') = Some (sidecar_bytes 0 5000)"
    by (simp add: fs_w0_def)
  have "lazyLoadPicture be_test fs_w0 junk0 ''a.t3x'' (state0 env_a) =
     (StdPicture_new\<lparr>inited := True, l_path := ''a.t3x'', l_lazyLoaded := True,
        pic_w := atoi (pad4 0 @ CHR 0x00 # pad4 5000 @ [CHR 0x00]),
        pic_h := atoi (pad4 5000 @ [CHR 0x00])\<rparr>, state0 env_a)"
    using g f
    by (simp add: lazyLoadPicture_def Let_def sidecar_contents pad4_length
        del: list_update.simps)
  then show ?thesis
    using atoi_pad4[of 0] atoi_pad4[of 5000] by (simp add: pic_w0_def)
qed

text \<open>
  Claim C4.  With the game active and a non-empty path, a sidecar path + ".size" holding
  W as four zero-padded digits, a newline, H as four zero-padded digits and a newline
  (so W and H are below 10000) makes lazyLoadPicture return a lazy resource of dimensions
  exactly (W, H) with no handle bound; the state, and with it the trace of backend calls,
  is unchanged: nothing was uploaded.
\<close>

theorem sidecar_round_trip:
  assumes "W < 10000" and "H < 10000" and "GameIsActive s" and "path \<noteq> []"
    and "fs (path @ ''.size'') = Some (sidecar_bytes W H)"
  shows "pic_w (fst (lazyLoadPicture be fs junk path s)) = int W \<and>
         pic_h (fst (lazyLoadPicture be fs junk path s)) = int H \<and>
         inited (fst (lazyLoadPicture be fs junk path s)) \<and>
         l_lazyLoaded (fst (lazyLoadPicture be fs junk path s)) \<and>
         d_texture (fst (lazyLoadPicture be fs junk path s)) = None \<and>
         d_texture2 (fst (lazyLoadPicture be fs junk path s)) = None \<and>
         d_texture3 (fst (lazyLoadPicture be fs junk path s)) = None \<and>
         snd (lazyLoadPicture be fs junk path s) = s"
proof -
  have "lazyLoadPicture be fs junk path s =
     (StdPicture_new\<lparr>inited := True, l_path := path, l_lazyLoaded := True,
        pic_w := atoi (pad4 W @ CHR 0x00 # pad4 H @ [CHR 0x00]),
        pic_h := atoi (pad4 H @ [CHR 0x00])\<rparr>, s)"
    using assms(3,4,5)
    by (simp add: lazyLoadPicture_def Let_def sidecar_contents pad4_length
        del: list_update.simps)
  then show ?thesis
    using atoi_pad4[OF assms(1)] atoi_pad4[OF assms(2)]
    by (simp add: StdPicture_new_def)
qed

theorem sidecar_round_trip_witness:
  "pic_w (fst (lazyLoadPicture be_test fs_good junk0 ''a.t3x'' (state0 env_a))) = 32 \<and>
   pic_h (fst (lazyLoadPicture be_test fs_good junk0 ''a.t3x'' (state0 env_a))) = 48 \<and>
   d_texture (fst (lazyLoadPicture be_test fs_good junk0 ''a.t3x'' (state0 env_a))) = None \<and>
   snd (lazyLoadPicture be_test fs_good junk0 ''a.t3x'' (state0 env_a)) = state0 env_a"
  using sidecar_round_trip[of 32 48 "state0 env_a" "''a.t3x''" fs_good be_test junk0]
  by (simp add: fs_good_def state0_def)

text \<open>
  Claim C8, as the code has it.  The load-and-unload probe is the fallback only when the
  sidecar cannot be opened.  A sidecar that opens is never checked: its first ten bytes are
  read, bytes 0 to 3 and 5 to 8 go through \<open>atoi\<close> whatever they are, and nothing is loaded.
\<close>

theorem sidecar_probe_only_when_absent:
  assumes "GameIsActive s" and "path \<noteq> []"
  shows "(fs (path @ ''.size'') = None \<longrightarrow>
           lazyLoadPicture be fs junk path s =
             lazyUnLoad be (lazyLoad be
               (StdPicture_new\<lparr>inited := True, l_path := path, l_lazyLoaded := True\<rparr>,
                emit (pLogWarning ''lazyLoadPicture: Couldn't open size file.'') s))) \<and>
         (\<forall>bytes. fs (path @ ''.size'') = Some bytes \<longrightarrow>
           lazyLoadPicture be fs junk path s =
             (StdPicture_new\<lparr>inited := True, l_path := path, l_lazyLoaded := True,
                pic_w := atoi ((fread10 bytes junk)[4 := CHR 0x00, 9 := CHR 0x00]),
                pic_h := atoi (drop 5 ((fread10 bytes junk)[4 := CHR 0x00, 9 := CHR 0x00]))\<rparr>,
              s))"
  using assms
  by (simp add: lazyLoadPicture_def Let_def StdPicture_new_def del: list_update.simps)

theorem sidecar_probe_only_when_absent_witness:
  "lazyLoadPicture be_test fs_bad junk0 ''a.t3x'' (state0 env_a) =
     (StdPicture_new\<lparr>inited := True, l_path := ''a.t3x'', l_lazyLoaded := True,
        pic_w := 0, pic_h := 0\<rparr>, state0 env_a)"
proof -
  have a: "atoi ((fread10 (''abcd'' @ [CHR 0x0A] @ ''efgh'' @ [CHR 0x0A]) junk0)
                   [4 := CHR 0x00, 9 := CHR 0x00]) = 0"
    by (simp add: fread10_full atoi_def isspace_c_def isdigit_c_def)
  have b: "atoi (drop 5 ((fread10 (''abcd'' @ [CHR 0x0A] @ ''efgh'' @ [CHR 0x0A]) junk0)
                   [4 := CHR 0x00, 9 := CHR 0x00])) = 0"
    by (simp add: fread10_full atoi_def isspace_c_def isdigit_c_def)
  show ?thesis
    using sidecar_probe_only_when_absent[of "state0 env_a" "''a.t3x''" fs_bad be_test junk0] a b
    by (simp add: fs_bad_def state0_def)
qed

text \<open>
  The claim as stated fails: with a sidecar that holds no digits the resource gets the
  dimensions 0 by 0 and no backend call is made, while the probe, run when the sidecar is
  absent, loads and frees the sheet and measures 32 by 48.
\<close>

theorem malformed_sidecar_counterexample:
  "calls (snd (lazyLoadPicture be_test fs_bad junk0 ''a.t3x'' (state0 env_a))) = [] \<and>
   pic_w (fst (lazyLoadPicture be_test fs_bad junk0 ''a.t3x'' (state0 env_a))) = 0 \<and>
   pic_h (fst (lazyLoadPicture be_test fs_bad junk0 ''a.t3x'' (state0 env_a))) = 0 \<and>
   calls (snd (lazyLoadPicture be_test fs_none junk0 ''a.t3x'' (state0 env_a))) =
     [pLogWarning ''lazyLoadPicture: Couldn't open size file.'', SpriteSheetLoad ''a.t3x'' True,
      minport_unlinkTexture, SpriteSheetFree sheet_a] \<and>
   pic_w (fst (lazyLoadPicture be_test fs_none junk0 ''a.t3x'' (state0 env_a))) = 32 \<and>
   pic_h (fst (lazyLoadPicture be_test fs_none junk0 ''a.t3x'' (state0 env_a))) = 48"
proof -
  have a: "atoi ((fread10 (''abcd'' @ [CHR 0x0A] @ ''efgh'' @ [CHR 0x0A]) junk0)
                   [4 := CHR 0x00, 9 := CHR 0x00]) = 0"
    by (simp add: fread10_full atoi_def isspace_c_def isdigit_c_def)
  have b: "atoi (drop 5 ((fread10 (''abcd'' @ [CHR 0x0A] @ ''efgh'' @ [CHR 0x0A]) junk0)
                   [4 := CHR 0x00, 9 := CHR 0x00])) = 0"
    by (simp add: fread10_full atoi_def isspace_c_def isdigit_c_def)
  have bad: "lazyLoadPicture be_test fs_bad junk0 ''a.t3x'' (state0 env_a) =
     (StdPicture_new\<lparr>inited := True, l_path := ''a.t3x'', l_lazyLoaded := True,
        pic_w := 0, pic_h := 0\<rparr>, state0 env_a)"
    using a b by (simp add: lazyLoadPicture_def Let_def fs_bad_def state0_def del: list_update.simps)
  have none: "lazyLoadPicture be_test fs_none junk0 ''a.t3x'' (state0 env_a) =
     (StdPicture_new\<lparr>inited := True, l_path := ''a.t3x'', l_lazyLoaded := True,
        pic_w := 32, pic_h := 48, d_image := SheetImage sheet_a\<rparr>,
      (state0 env_a)\<lparr>calls := [pLogWarning ''lazyLoadPicture: Couldn't open size file.'',
          SpriteSheetLoad ''a.t3x'' True, minport_unlinkTexture, SpriteSheetFree sheet_a]\<rparr>)"
    by (simp add: lazyLoadPicture_def Let_def fs_none_def lazyLoad_def lazyLoad_band2_def
        lazyLoad_band3_def low_memory_check_def lazyUnLoad_def deleteTexture_def
        s_tryHardToLoadC2D_SpriteSheet_def sheet_load_def sheet_free_def emit_def emits_def
        free_texture_memory_def be_test_def state0_def env_a_def StdPicture_new_def
        s_loadTexture_def sheet_a_def)
  show ?thesis
    unfolding bad none by (simp add: state0_def StdPicture_new_def)
qed

section \<open>Drawing: proofs\<close>

lemma s16_id: "in16 x \<Longrightarrow> s16 x = x"
  by (simp add: s16_def in16_def signed_take_bit_int_eq_self)

lemma in16_s16: "in16 (s16 x)"
proof -
  have "- (2 ^ 15) \<le> signed_take_bit 15 x" "signed_take_bit 15 x < (2 ^ 15 :: int)"
    by (rule signed_take_bit_int_greater_eq_minus_exp, rule signed_take_bit_int_less_exp)
  then show ?thesis by (simp add: s16_def in16_def)
qed

lemma sdiv_pos: "0 \<le> a \<Longrightarrow> 0 < c \<Longrightarrow> a sdiv c = a div (c::int)"
  by (simp add: signed_divide_int_def sgn_if)

lemma sdiv_neg: "a < 0 \<Longrightarrow> 0 < c \<Longrightarrow> a sdiv c = - ((- a) div (c::int))"
  by (simp add: signed_divide_int_def sgn_if)

lemma split_bounds_nonneg:
  assumes "0 < a" "a < c" "0 \<le> (h::int)"
  shows "0 \<le> (a * h) sdiv c \<and> (a * h) sdiv c \<le> h"
proof -
  have p: "0 \<le> a * h" using assms by simp
  have e: "(a * h) sdiv c = (a * h) div c" using p assms by (intro sdiv_pos) simp_all
  have "a * h \<le> c * h" using assms by (intro mult_right_mono) simp_all
  then have "(a * h) div c \<le> (c * h) div c" by (rule zdiv_mono1) (use assms in simp)
  also have "\<dots> = h" using assms by simp
  finally have "(a * h) div c \<le> h" .
  moreover have "0 \<le> (a * h) div c" using p assms by (simp add: pos_imp_zdiv_nonneg_iff)
  ultimately show ?thesis unfolding e by simp
qed

lemma split_bounds_neg:
  assumes "0 < a" "a < c" "(h::int) < 0"
  shows "h \<le> (a * h) sdiv c \<and> (a * h) sdiv c \<le> 0"
proof -
  have n: "a * h < 0" using assms by (simp add: mult_pos_neg)
  have c: "0 < c" using assms by simp
  have e: "(a * h) sdiv c = - ((a * (- h)) div c)"
    using sdiv_neg[OF n c] by (simp only: mult_minus_right)
  have "0 \<le> (a * (- h)) sdiv c \<and> (a * (- h)) sdiv c \<le> - h"
    using assms by (intro split_bounds_nonneg) simp_all
  moreover have "0 \<le> a * (- h)"
    using assms by (intro mult_nonneg_nonneg) simp_all
  then have "(a * (- h)) sdiv c = (a * (- h)) div c"
    using c by (rule sdiv_pos)
  ultimately show ?thesis unfolding e by simp
qed

lemma split_rest_in16:
  assumes "0 < a" "a < c" "in16 h"
  shows "in16 (h - (a * h) sdiv c)"
proof (cases "0 \<le> h")
  case True
  from split_bounds_nonneg[OF assms(1,2) True] assms(3) show ?thesis
    by (simp add: in16_def)
next
  case False
  then have "h < 0" by simp
  from split_bounds_neg[OF assms(1,2) this] assms(3) show ?thesis
    by (simp add: in16_def)
qed

lemma auto_flip_closed:
  assumes "0 < h sdiv 2" and "0 \<le> y" and "y \<le> 32767" and "mode \<le> 3"
  shows "auto_flip y h mode =
     (y - int (min (3 - mode) (nat (y div (h sdiv 2)))) * (h sdiv 2),
      mode + min (3 - mode) (nat (y div (h sdiv 2))))"
  using assms
proof (induction y h mode rule: auto_flip.induct)
  case (1 y h mode)
  define hh where "hh = h sdiv 2"
  have hh: "0 < hh" using "1.prems" by (simp add: hh_def)
  show ?case
  proof (cases "y \<ge> hh \<and> mode < 3")
    case True
    have s: "s16 (y - hh) = y - hh"
      using True "1.prems" hh by (intro s16_id) (simp add: in16_def)
    have q: "y div hh = (y - hh) div hh + 1"
      using div_add_self2[of hh "y - hh"] hh by simp
    have q0: "0 \<le> (y - hh) div hh"
      using True hh by (simp add: pos_imp_zdiv_nonneg_iff)
    have IH: "auto_flip (y - hh) h (mode + 1) =
       (y - hh - int (min (3 - (mode + 1)) (nat ((y - hh) div hh))) * hh,
        mode + 1 + min (3 - (mode + 1)) (nat ((y - hh) div hh)))"
      using "1.IH" True s "1.prems" hh unfolding hh_def by (simp del: auto_flip.simps)
    have m: "min (3 - mode) (nat (y div hh)) = min (3 - (mode + 1)) (nat ((y - hh) div hh)) + 1"
    proof -
      define r where "r = nat ((y - hh) div hh)"
      have "nat (y div hh) = r + 1"
        unfolding q r_def using q0 by (simp add: nat_add_distrib)
      then show ?thesis
        unfolding r_def[symmetric] using True by (simp add: min_def) linarith
    qed
    have c: "y \<ge> h sdiv 2 \<and> mode < 3" using True by (simp add: hh_def)
    have "auto_flip y h mode = auto_flip (s16 (y - h sdiv 2)) h (mode + 1)"
      by (subst auto_flip.simps) (simp only: c if_True simp_thms)
    then have "auto_flip y h mode = auto_flip (y - hh) h (mode + 1)"
      using s by (simp only: hh_def)
    also note IH
    finally show ?thesis
      unfolding hh_def[symmetric] m by (simp add: algebra_simps)
  next
    case False
    have z: "min (3 - mode) (nat (y div hh)) = 0"
    proof (cases "mode < 3")
      case True
      with False have "y < hh" by simp
      with "1.prems" have "y div hh = 0" by simp
      then show ?thesis by simp
    next
      case False
      then show ?thesis by simp
    qed
    have c: "\<not> (y \<ge> h sdiv 2 \<and> mode < 3)" using False by (simp add: hh_def)
    have "auto_flip y h mode = (y, mode)"
      by (subst auto_flip.simps) (simp only: c if_False simp_thms)
    then show ?thesis unfolding hh_def[symmetric] z by simp
  qed
qed

lemma draws_of_append: "draws_of (xs @ ys) = draws_of xs @ draws_of ys"
  by (induction xs rule: draws_of.induct) simp_all

lemma draws_of_map: "draws_of (map C2D_DrawImage_Custom ds) = ds"
  by (induction ds) simp_all

lemma band_draws_flip: "d \<in> set (band_draws tx b) \<Longrightarrow> di_flip d = flip b"
  by (auto simp: band_draws_def draw_args_def Let_def split: if_splits option.splits)


lemma auto_flip_in16: "in16 y \<Longrightarrow> in16 (fst (auto_flip y h mode))"
proof (induction y h mode rule: auto_flip.induct)
  case (1 y h mode)
  show ?case
  proof (cases "y \<ge> h sdiv 2 \<and> mode < 3")
    case True
    have "auto_flip y h mode = auto_flip (s16 (y - h sdiv 2)) h (mode + 1)"
      by (subst auto_flip.simps) (simp only: True if_True simp_thms)
    then show ?thesis using "1.IH"[OF True in16_s16] by simp
  next
    case False
    have "auto_flip y h mode = (y, mode)"
      by (subst auto_flip.simps) (simp only: False if_False simp_thms)
    then show ?thesis using "1.prems" by simp
  qed
qed

lemma blit_draws_loaded:
  assumes "inited tx" and "d_texture tx \<noteq> None"
  shows "\<exists>b2. blit_draws be b tx s = band_draws tx b2 \<and>
           ySrc b2 = fst (auto_flip (ySrc b) (pic_h tx) 0) \<and>
           flip b2 = flip b XOR of_nat (snd (auto_flip (ySrc b) (pic_h tx) 0)) \<and>
           hSrc b2 = hSrc b \<and> hDst b2 = hDst b \<and>
           (rotateAngle b = 0 \<longrightarrow>
              b2 = b\<lparr>ySrc := fst (auto_flip (ySrc b) (pic_h tx) 0),
                     flip := flip b XOR of_nat (snd (auto_flip (ySrc b) (pic_h tx) 0))\<rparr>)"
proof -
  obtain sh where sh: "d_texture tx = Some sh" using assms(2) by auto
  obtain y m where af: "auto_flip (ySrc b) (pic_h tx) 0 = (y, m)"
    by (cases "auto_flip (ySrc b) (pic_h tx) 0")
  define b1 where "b1 = b\<lparr>ySrc := y, flip := flip b XOR of_nat m\<rparr>"
  show ?thesis
  proof (cases "rotateAngle b = 0")
    case True
    have "blit_draws be b tx s = band_draws tx b1"
      using assms(1) sh af True
      by (simp add: blit_draws_def minport_RenderTexturePrivate_def new_calls_def emits_def
          draws_of_map b1_def del: auto_flip.simps)
    then show ?thesis
      using True af by (intro exI[of _ b1]) (simp add: b1_def del: auto_flip.simps)
  next
    case False
    obtain cx cy where p: "rotation_pivot be b1 = (cx, cy)"
      by (cases "rotation_pivot be b1")
    have "blit_draws be b tx s = band_draws tx (b1\<lparr>xDst := s16 (- cx), yDst := s16 (- cy)\<rparr>)"
      using assms(1) sh af False p
      by (simp add: blit_draws_def minport_RenderTexturePrivate_def new_calls_def emits_def
          draws_of_map draws_of_append b1_def[symmetric] del: auto_flip.simps)
    then show ?thesis
      using False af
      by (intro exI[of _ "b1\<lparr>xDst := s16 (- cx), yDst := s16 (- cy)\<rparr>"])
         (simp add: b1_def del: auto_flip.simps)
  qed
qed

lemma band_first:
  assumes "ySrc b < 1024" and "1024 < ySrc b + hSrc b" and "ySrc b + hSrc b \<le> 2048"
    and "in16 (hDst b)" and "in16 (hSrc b)"
    and "tp = ((1024 - ySrc b) * hDst b) sdiv hSrc b"
  shows "band_draws tx b =
     draw_args (d_image tx) (b\<lparr>hDst := tp, hSrc := 1024 - ySrc b\<rparr>)
     # (if d_texture2 tx \<noteq> None
        then [draw_args (d_image2 tx)
                (b\<lparr>yDst := s16 (yDst b + tp), hDst := hDst b - tp,
                   hSrc := hSrc b - (1024 - ySrc b), ySrc := 0\<rparr>)]
        else [])"
proof -
  have a: "0 < 1024 - ySrc b" "1024 - ySrc b < hSrc b" using assms by simp_all
  have 1: "s16 (hDst b - tp) = hDst b - tp"
    unfolding assms(6) using split_rest_in16[OF a assms(4)] by (rule s16_id)
  have 2: "s16 (hSrc b - (1024 - ySrc b)) = hSrc b - (1024 - ySrc b)"
    using a assms(5) by (intro s16_id) (simp add: in16_def)
  show ?thesis
    using assms(1,2,3) 1 2 by (simp add: band_draws_def Let_def assms(6)[symmetric])
qed

lemma band_second:
  assumes "ySrc b < 2048" and "2048 < ySrc b + hSrc b"
    and "in16 (hDst b)" and "in16 (hSrc b)" and "in16 (ySrc b)"
    and "tp = ((2048 - ySrc b) * hDst b) sdiv hSrc b"
  shows "band_draws tx b =
     (if d_texture2 tx \<noteq> None
      then draw_args (d_image2 tx) (b\<lparr>ySrc := ySrc b - 1024, hDst := tp, hSrc := 2048 - ySrc b\<rparr>)
           # (if d_texture3 tx \<noteq> None
              then [draw_args (d_image3 tx)
                      (b\<lparr>yDst := s16 (yDst b + tp), hDst := hDst b - tp,
                         hSrc := hSrc b - (2048 - ySrc b), ySrc := 0\<rparr>)]
              else [])
      else if d_texture3 tx \<noteq> None
           then [draw_args (d_image3 tx) (b\<lparr>ySrc := ySrc b - 2048\<rparr>)]
           else [])"
proof -
  have a: "0 < 2048 - ySrc b" "2048 - ySrc b < hSrc b" using assms by simp_all
  have z1: "s16 (ySrc b - 1024) = ySrc b - 1024"
    using assms by (intro s16_id) (simp add: in16_def)
  have z2: "s16 (ySrc b - 1024 - 1024) = ySrc b - 2048"
    using assms s16_id[of "ySrc b - 2048"] by (simp add: in16_def)
  have 1: "s16 (hDst b - tp) = hDst b - tp"
    unfolding assms(6) using split_rest_in16[OF a assms(3)] by (rule s16_id)
  have 2: "s16 (hSrc b - (2048 - ySrc b)) = hSrc b - (2048 - ySrc b)"
    using a assms(4) by (intro s16_id) (simp add: in16_def)
  have 3: "1024 - (ySrc b - 1024) = 2048 - ySrc b" by simp
  show ?thesis
    using assms(1,2) z1 z2 1 2 3
    by (simp add: band_draws_def Let_def assms(6)[symmetric])
qed


text \<open>
  Claim C1, as the code has it.  For an inited picture with its texture bound, a positive
  half-height \<open>tx.h / 2\<close> and a source row that is not negative: the loop subtracts the
  half-height \<open>flip_count\<close> times, that is once per half-height at or below the source row
  and at most 3 times, and every draw call of the blit gets the flip value
  \<open>flip XOR flip_count\<close>, the count taken as a number.  A source row of one half-height
  is drawn with \<open>flip XOR 1\<close>, of two half-heights with \<open>flip XOR 2\<close>, which differs from
  \<open>flip\<close>, of three with \<open>flip XOR 3\<close>.
\<close>

theorem auto_flip_blit:
  assumes "inited tx" and "d_texture tx \<noteq> None"
    and "0 < pic_h tx sdiv 2" and "0 \<le> ySrc b" and "ySrc b \<le> 32767"
  shows "auto_flip (ySrc b) (pic_h tx) 0 =
           (ySrc b - int (flip_count tx b) * (pic_h tx sdiv 2), flip_count tx b) \<and>
         (\<forall>d \<in> set (blit_draws be b tx s). di_flip d = flip b XOR of_nat (flip_count tx b)) \<and>
         (rotateAngle b = 0 \<longrightarrow>
            blit_draws be b tx s =
              band_draws tx (b\<lparr>ySrc := ySrc b - int (flip_count tx b) * (pic_h tx sdiv 2),
                                flip := flip b XOR of_nat (flip_count tx b)\<rparr>)) \<and>
         (ySrc b = pic_h tx sdiv 2 \<longrightarrow> flip_count tx b = 1) \<and>
         (ySrc b = 2 * (pic_h tx sdiv 2) \<longrightarrow>
            flip_count tx b = 2 \<and> flip b XOR of_nat (flip_count tx b) \<noteq> flip b) \<and>
         (ySrc b = 3 * (pic_h tx sdiv 2) \<longrightarrow> flip_count tx b = 3)"
proof -
  define hh where "hh = pic_h tx sdiv 2"
  have hh: "0 < hh" using assms(3) by (simp add: hh_def)
  have af: "auto_flip (ySrc b) (pic_h tx) 0 =
           (ySrc b - int (flip_count tx b) * (pic_h tx sdiv 2), flip_count tx b)"
    using auto_flip_closed[OF assms(3,4,5), of 0] by (simp add: flip_count_def del: auto_flip.simps)
  from blit_draws_loaded[OF assms(1,2), of be b s] obtain b2 where
    b2: "blit_draws be b tx s = band_draws tx b2"
      "flip b2 = flip b XOR of_nat (snd (auto_flip (ySrc b) (pic_h tx) 0))"
      "rotateAngle b = 0 \<longrightarrow>
              b2 = b\<lparr>ySrc := fst (auto_flip (ySrc b) (pic_h tx) 0),
                     flip := flip b XOR of_nat (snd (auto_flip (ySrc b) (pic_h tx) 0))\<rparr>"
    by blast
  have fl: "\<forall>d \<in> set (blit_draws be b tx s). di_flip d = flip b XOR of_nat (flip_count tx b)"
    unfolding b2(1) using band_draws_flip[of _ tx b2] b2(2) af by (simp del: auto_flip.simps)
  have rot: "rotateAngle b = 0 \<longrightarrow>
            blit_draws be b tx s =
              band_draws tx (b\<lparr>ySrc := ySrc b - int (flip_count tx b) * (pic_h tx sdiv 2),
                                flip := flip b XOR of_nat (flip_count tx b)\<rparr>)"
    using b2(1,3) af by (simp del: auto_flip.simps)
  have k1: "ySrc b = hh \<longrightarrow> flip_count tx b = 1"
    using hh by (simp add: flip_count_def hh_def[symmetric])
  have k2: "ySrc b = 2 * hh \<longrightarrow> flip_count tx b = 2"
    using hh by (simp add: flip_count_def hh_def[symmetric])
  have k3: "ySrc b = 3 * hh \<longrightarrow> flip_count tx b = 3"
    using hh by (simp add: flip_count_def hh_def[symmetric])
  have x2: "flip b XOR 2 \<noteq> flip b"
  proof
    assume "flip b XOR 2 = flip b"
    then have "flip b XOR (flip b XOR 2) = flip b XOR flip b" by simp
    then have "(2 :: 32 word) = 0" by (simp add: xor.assoc[symmetric])
    then show False by simp
  qed
  show ?thesis
    using af fl rot k1 k2 k3 x2 unfolding hh_def by (simp del: auto_flip.simps)
qed

theorem auto_flip_blit_witness:
  "map di_flip (blit_draws be_test (blit_at 64) pic_64 (state0 env_a)) = [2] \<and>
   map di_src_y (blit_draws be_test (blit_at 64) pic_64 (state0 env_a)) = [0]"
proof -
  have fc: "flip_count pic_64 (blit_at 64) = 2"
    by (simp add: flip_count_def pic_64_def blit_at_def pic_resident_def pic_lazy_def)
  have "blit_draws be_test (blit_at 64) pic_64 (state0 env_a) =
     band_draws pic_64 ((blit_at 64)\<lparr>ySrc := 0, flip := 2\<rparr>)"
    using auto_flip_blit[of pic_64 "blit_at 64" be_test "state0 env_a"] fc
    by (simp add: pic_64_def blit_at_def pic_resident_def pic_lazy_def StdPicture_new_def
        del: auto_flip.simps)
  then show ?thesis
    by (simp add: band_draws_def blit_at_def draw_args_def)
qed

text \<open>
  The claim as stated fails: on a picture 64 high (half-height 32) a blit from source row 64,
  two half-heights, is drawn with flip value 2, not with the flip value 0 of the blit from
  row 0.
\<close>

theorem auto_flip_blit_counterexample:
  "map di_flip (blit_draws be_test (blit_at 0) pic_64 (state0 env_a)) = [0] \<and>
   map di_flip (blit_draws be_test (blit_at 32) pic_64 (state0 env_a)) = [1] \<and>
   map di_flip (blit_draws be_test (blit_at 64) pic_64 (state0 env_a)) = [2] \<and>
   map di_flip (blit_draws be_test (blit_at 64) pic_64 (state0 env_a)) \<noteq>
   map di_flip (blit_draws be_test (blit_at 0) pic_64 (state0 env_a))"
proof -
  have s: "s16 32 = 32" "s16 0 = 0" by (simp_all add: s16_id in16_def)
  have a0: "auto_flip 0 64 0 = (0, 0)" by simp
  have a1: "auto_flip 32 64 0 = (0, 1)" by (simp add: s)
  have a2: "auto_flip 64 64 0 = (0, 2)" by (simp add: s)
  have d: "\<And>y. blit_draws be_test (blit_at y) pic_64 (state0 env_a) =
     band_draws pic_64 ((blit_at y)\<lparr>ySrc := fst (auto_flip y 64 0),
        flip := of_nat (snd (auto_flip y 64 0))\<rparr>)"
    by (simp add: blit_draws_def minport_RenderTexturePrivate_def new_calls_def emits_def
        draws_of_map pic_64_def blit_at_def pic_resident_def pic_lazy_def StdPicture_new_def
        split: prod.splits del: auto_flip.simps)
  show ?thesis
    unfolding d a0 a1 a2 by (simp add: band_draws_def blit_at_def draw_args_def)
qed


text \<open>
  Band crossing.  \<open>y\<close> is the source row after the flip loop, so the source rectangle of
  the blit covers the rows from \<open>y\<close> to \<open>y + hSrc\<close>.  When it straddles row 1024 (and ends
  by row 2048) the draw calls are one on the first band for the rows below 1024 and one on
  the second band for the rows above; when it straddles row 2048 they are one on the second
  and one on the third band.  A band whose texture is absent gets no draw call.  With both
  bands present there are exactly two calls, their destination heights add up to the
  requested \<open>hDst\<close>, and their source heights split at the boundary.  A picture that is
  not inited, or has no texture and is not lazy, is returned with the state unchanged.
  What the remaining call draws when one band is absent is in \<open>band_first\<close> and
  \<open>band_second\<close>.
\<close>

lemma band_crossing:
  assumes "inited tx" and "d_texture tx \<noteq> None"
    and "in16 (ySrc b)" and "in16 (hSrc b)" and "in16 (hDst b)"
    and "y = fst (auto_flip (ySrc b) (pic_h tx) 0)"
    and "D = blit_draws be b tx s"
  shows "(y < 1024 \<and> 1024 < y + hSrc b \<and> y + hSrc b \<le> 2048 \<longrightarrow>
           map di_img D = d_image tx # (if d_texture2 tx \<noteq> None then [d_image2 tx] else []) \<and>
           (d_texture2 tx \<noteq> None \<longrightarrow>
              length D = 2 \<and> di_h (D ! 0) + di_h (D ! 1) = hDst b \<and>
              di_src_y (D ! 0) = y \<and> di_src_h (D ! 0) = 1024 - y \<and>
              di_src_y (D ! 1) = 0 \<and> di_src_h (D ! 1) = y + hSrc b - 1024)) \<and>
         (y < 2048 \<and> 2048 < y + hSrc b \<longrightarrow>
           map di_img D = (if d_texture2 tx \<noteq> None then [d_image2 tx] else [])
                          @ (if d_texture3 tx \<noteq> None then [d_image3 tx] else []) \<and>
           (d_texture2 tx \<noteq> None \<and> d_texture3 tx \<noteq> None \<longrightarrow>
              length D = 2 \<and> di_h (D ! 0) + di_h (D ! 1) = hDst b \<and>
              di_src_y (D ! 0) = y - 1024 \<and> di_src_h (D ! 0) = 2048 - y \<and>
              di_src_y (D ! 1) = 0 \<and> di_src_h (D ! 1) = y + hSrc b - 2048)) \<and>
         (\<not> inited tx' \<longrightarrow> minport_RenderTexturePrivate be b tx' s = (tx', s)) \<and>
         (d_texture tx' = None \<and> \<not> l_lazyLoaded tx' \<longrightarrow>
            minport_RenderTexturePrivate be b tx' s = (tx', s))"
proof -
  from blit_draws_loaded[OF assms(1,2), of be b s] obtain b2 where
    b2: "D = band_draws tx b2" "ySrc b2 = y" "hSrc b2 = hSrc b" "hDst b2 = hDst b"
    unfolding assms(6,7) by blast
  have y16: "in16 (ySrc b2)"
    unfolding b2(2) assms(6) using assms(3) by (rule auto_flip_in16)
  have first: "y < 1024 \<and> 1024 < y + hSrc b \<and> y + hSrc b \<le> 2048 \<longrightarrow>
           map di_img D = d_image tx # (if d_texture2 tx \<noteq> None then [d_image2 tx] else []) \<and>
           (d_texture2 tx \<noteq> None \<longrightarrow>
              length D = 2 \<and> di_h (D ! 0) + di_h (D ! 1) = hDst b \<and>
              di_src_y (D ! 0) = y \<and> di_src_h (D ! 0) = 1024 - y \<and>
              di_src_y (D ! 1) = 0 \<and> di_src_h (D ! 1) = y + hSrc b - 1024)"
  proof
    assume c: "y < 1024 \<and> 1024 < y + hSrc b \<and> y + hSrc b \<le> 2048"
    define tp where "tp = ((1024 - ySrc b2) * hDst b2) sdiv hSrc b2"
    have "band_draws tx b2 =
       draw_args (d_image tx) (b2\<lparr>hDst := tp, hSrc := 1024 - ySrc b2\<rparr>)
       # (if d_texture2 tx \<noteq> None
          then [draw_args (d_image2 tx)
                  (b2\<lparr>yDst := s16 (yDst b2 + tp), hDst := hDst b2 - tp,
                      hSrc := hSrc b2 - (1024 - ySrc b2), ySrc := 0\<rparr>)]
          else [])"
      using c assms(4,5) b2(2,3,4) tp_def by (intro band_first) simp_all
    then show "map di_img D = d_image tx # (if d_texture2 tx \<noteq> None then [d_image2 tx] else []) \<and>
           (d_texture2 tx \<noteq> None \<longrightarrow>
              length D = 2 \<and> di_h (D ! 0) + di_h (D ! 1) = hDst b \<and>
              di_src_y (D ! 0) = y \<and> di_src_h (D ! 0) = 1024 - y \<and>
              di_src_y (D ! 1) = 0 \<and> di_src_h (D ! 1) = y + hSrc b - 1024)"
      unfolding b2(1) using b2(2,3,4) by (simp add: draw_args_def)
  qed
  have second: "y < 2048 \<and> 2048 < y + hSrc b \<longrightarrow>
           map di_img D = (if d_texture2 tx \<noteq> None then [d_image2 tx] else [])
                          @ (if d_texture3 tx \<noteq> None then [d_image3 tx] else []) \<and>
           (d_texture2 tx \<noteq> None \<and> d_texture3 tx \<noteq> None \<longrightarrow>
              length D = 2 \<and> di_h (D ! 0) + di_h (D ! 1) = hDst b \<and>
              di_src_y (D ! 0) = y - 1024 \<and> di_src_h (D ! 0) = 2048 - y \<and>
              di_src_y (D ! 1) = 0 \<and> di_src_h (D ! 1) = y + hSrc b - 2048)"
  proof
    assume c: "y < 2048 \<and> 2048 < y + hSrc b"
    define tp where "tp = ((2048 - ySrc b2) * hDst b2) sdiv hSrc b2"
    have "band_draws tx b2 =
     (if d_texture2 tx \<noteq> None
      then draw_args (d_image2 tx) (b2\<lparr>ySrc := ySrc b2 - 1024, hDst := tp, hSrc := 2048 - ySrc b2\<rparr>)
           # (if d_texture3 tx \<noteq> None
              then [draw_args (d_image3 tx)
                      (b2\<lparr>yDst := s16 (yDst b2 + tp), hDst := hDst b2 - tp,
                         hSrc := hSrc b2 - (2048 - ySrc b2), ySrc := 0\<rparr>)]
              else [])
      else if d_texture3 tx \<noteq> None
           then [draw_args (d_image3 tx) (b2\<lparr>ySrc := ySrc b2 - 2048\<rparr>)]
           else [])"
      using c assms(4,5) b2(2,3,4) y16 tp_def by (intro band_second) simp_all
    then show "map di_img D = (if d_texture2 tx \<noteq> None then [d_image2 tx] else [])
                          @ (if d_texture3 tx \<noteq> None then [d_image3 tx] else []) \<and>
           (d_texture2 tx \<noteq> None \<and> d_texture3 tx \<noteq> None \<longrightarrow>
              length D = 2 \<and> di_h (D ! 0) + di_h (D ! 1) = hDst b \<and>
              di_src_y (D ! 0) = y - 1024 \<and> di_src_h (D ! 0) = 2048 - y \<and>
              di_src_y (D ! 1) = 0 \<and> di_src_h (D ! 1) = y + hSrc b - 2048)"
      unfolding b2(1) using b2(2,3,4) by (simp add: draw_args_def)
  qed
  have none: "\<not> inited tx' \<longrightarrow> minport_RenderTexturePrivate be b tx' s = (tx', s)"
    by (simp add: minport_RenderTexturePrivate_def)
  have missing: "d_texture tx' = None \<and> \<not> l_lazyLoaded tx' \<longrightarrow>
            minport_RenderTexturePrivate be b tx' s = (tx', s)"
    by (simp add: minport_RenderTexturePrivate_def)
  from first second none missing show ?thesis by blast
qed

lemma band_crossing_example:
  "map di_img (blit_draws be_test blit_cross pic_bands (state0 env_a)) =
     [SheetImage sheet_a, SheetImage sheet_a1] \<and>
   di_h (blit_draws be_test blit_cross pic_bands (state0 env_a) ! 0) +
   di_h (blit_draws be_test blit_cross pic_bands (state0 env_a) ! 1) = 400"
proof -
  have p: "inited pic_bands" "d_texture pic_bands \<noteq> None" "d_texture2 pic_bands \<noteq> None"
    "d_image pic_bands = SheetImage sheet_a" "d_image2 pic_bands = SheetImage sheet_a1"
    "pic_h pic_bands = 6000"
    by (simp_all add: pic_bands_def pic_resident_def pic_lazy_def StdPicture_new_def)
  have q: "ySrc blit_cross = 900" "hSrc blit_cross = 200" "hDst blit_cross = 400"
    by (simp_all add: blit_cross_def)
  have r: "in16 (ySrc blit_cross)" "in16 (hSrc blit_cross)" "in16 (hDst blit_cross)"
    unfolding q by (simp_all add: in16_def)
  have af: "900 = fst (auto_flip (ySrc blit_cross) (pic_h pic_bands) 0)"
    unfolding q p by simp
  from band_crossing[OF p(1,2) r af refl, of be_test "state0 env_a"] p(3) show ?thesis
    unfolding q p(4,5,6) by auto
qed

text \<open>
  Claim C3.  The code misses one case of an absent band.  When the rectangle straddles row
  2048 and the second band is null while the third is bound, \<open>to_draw_2\<close> stays null and the
  code takes the path of a rectangle that lies wholly in the third band: it issues one call
  on the third band with the whole destination height and the whole source height, from the
  negative source row \<open>y - 2048\<close>.  The picture declared 6000 high whose file a.t3x1 is
  missing and a.t3x2 present is left by lazyLoad with the second band null and the third
  bound; the blit of the 100 source rows from row 2000 onto a destination 50 high is then
  drawn as one call on the third band, 50 high, from source row -48 with source height 100,
  so the rows of the absent band are not skipped.  With the second band bound and the
  third null the same blit is drawn as one call on the second band, 24 high, from source
  row 976 with source height 48: there the absent part is skipped.
\<close>

theorem band_crossing_lower_band_absent:
  "lazyLoad be_test (pic_6000, state0 env_a3) =
     (pic_band3,
      (state0 env_a3)\<lparr>calls := [SpriteSheetLoad ''a.t3x'' True, SpriteSheetLoad ''a.t3x1'' False,
          SpriteSheetLoad ''a.t3x1'' False,
          pLogWarning ''Permanently failed to load %s, %lu free'',
          pLogWarning ''Error: %d (%s)'', SpriteSheetLoad ''a.t3x2'' True],
        s_num_textures_loaded := 1\<rparr>) \<and>
   d_texture2 pic_band3 = None \<and> d_texture3 pic_band3 = Some sheet_a2 \<and>
   ySrc blit_2048 = 2000 \<and> hSrc blit_2048 = 100 \<and> hDst blit_2048 = 50 \<and>
   map di_img (blit_draws be_test blit_2048 pic_band3 (state0 env_a3)) = [SheetImage sheet_a2] \<and>
   map di_h (blit_draws be_test blit_2048 pic_band3 (state0 env_a3)) = [50] \<and>
   map di_src_y (blit_draws be_test blit_2048 pic_band3 (state0 env_a3)) = [- 48] \<and>
   map di_src_h (blit_draws be_test blit_2048 pic_band3 (state0 env_a3)) = [100] \<and>
   map di_img (blit_draws be_test blit_2048 pic_bands (state0 env_a)) = [SheetImage sheet_a1] \<and>
   map di_h (blit_draws be_test blit_2048 pic_bands (state0 env_a)) = [24] \<and>
   map di_src_y (blit_draws be_test blit_2048 pic_bands (state0 env_a)) = [976] \<and>
   map di_src_h (blit_draws be_test blit_2048 pic_bands (state0 env_a)) = [48]"
proof -
  have l: "lazyLoad be_test (pic_6000, state0 env_a3) =
     (pic_band3,
      (state0 env_a3)\<lparr>calls := [SpriteSheetLoad ''a.t3x'' True, SpriteSheetLoad ''a.t3x1'' False,
          SpriteSheetLoad ''a.t3x1'' False,
          pLogWarning ''Permanently failed to load %s, %lu free'',
          pLogWarning ''Error: %d (%s)'', SpriteSheetLoad ''a.t3x2'' True],
        s_num_textures_loaded := 1\<rparr>)"
    by (simp add: lazyLoad_def lazyLoad_band2_def lazyLoad_band3_def low_memory_check_def
      s_tryHardToLoadC2D_SpriteSheet_def sheet_load_def emit_def emits_def
      free_texture_memory_def be_test_def pic_6000_def pic_band3_def pic_lazy_def state0_def
      env_a3_def StdPicture_new_def s_loadTexture_def s_loadTexture3_def sheet_a_def
      sheet_a2_def)
  have p: "d_texture2 pic_band3 = None \<and> d_texture3 pic_band3 = Some sheet_a2"
    by (simp add: pic_band3_def pic_6000_def pic_lazy_def StdPicture_new_def)
  have q: "ySrc blit_2048 = 2000 \<and> hSrc blit_2048 = 100 \<and> hDst blit_2048 = 50"
    by (simp add: blit_2048_def)
  have s: "s16 976 = 976" "s16 (- 48) = - 48" "s16 24 = 24" "s16 26 = 26" "s16 52 = 52"
    by (simp_all add: s16_id in16_def)
  have dv: "(2400::int) sdiv 48 = 50" "(6000::int) sdiv 2 = 3000"
    by (simp_all add: sdiv_pos)
  have af: "auto_flip 2000 6000 0 = (2000, 0)"
    by (simp add: dv)
  have d3: "blit_draws be_test blit_2048 pic_band3 (state0 env_a3) =
     band_draws pic_band3 blit_2048"
    using af
    by (simp add: blit_draws_def minport_RenderTexturePrivate_def new_calls_def emits_def
        draws_of_map pic_band3_def pic_6000_def blit_2048_def pic_lazy_def StdPicture_new_def
        del: auto_flip.simps)
  have d2: "blit_draws be_test blit_2048 pic_bands (state0 env_a) =
     band_draws pic_bands blit_2048"
    using af
    by (simp add: blit_draws_def minport_RenderTexturePrivate_def new_calls_def emits_def
        draws_of_map pic_bands_def pic_resident_def blit_2048_def pic_lazy_def
        StdPicture_new_def del: auto_flip.simps)
  have b3: "band_draws pic_band3 blit_2048 =
     [draw_args (SheetImage sheet_a2) (blit_2048\<lparr>ySrc := - 48\<rparr>)]"
    by (simp add: band_draws_def pic_band3_def pic_6000_def blit_2048_def pic_lazy_def
        StdPicture_new_def s)
  have dw: "(2400::int) sdiv 100 = 24" by (simp add: sdiv_pos)
  have b2: "band_draws pic_bands blit_2048 =
     [draw_args (SheetImage sheet_a1) (blit_2048\<lparr>ySrc := 976, hDst := 24, hSrc := 48\<rparr>)]"
    by (simp add: band_draws_def pic_bands_def pic_resident_def blit_2048_def pic_lazy_def
        StdPicture_new_def s dw Let_def)
  have r3: "map di_img (blit_draws be_test blit_2048 pic_band3 (state0 env_a3)) = [SheetImage sheet_a2] \<and>
   map di_h (blit_draws be_test blit_2048 pic_band3 (state0 env_a3)) = [50] \<and>
   map di_src_y (blit_draws be_test blit_2048 pic_band3 (state0 env_a3)) = [- 48] \<and>
   map di_src_h (blit_draws be_test blit_2048 pic_band3 (state0 env_a3)) = [100]"
    unfolding d3 b3 by (simp add: draw_args_def blit_2048_def)
  have r2: "map di_img (blit_draws be_test blit_2048 pic_bands (state0 env_a)) = [SheetImage sheet_a1] \<and>
   map di_h (blit_draws be_test blit_2048 pic_bands (state0 env_a)) = [24] \<and>
   map di_src_y (blit_draws be_test blit_2048 pic_bands (state0 env_a)) = [976] \<and>
   map di_src_h (blit_draws be_test blit_2048 pic_bands (state0 env_a)) = [48]"
    unfolding d2 b2 by (simp add: draw_args_def blit_2048_def)
  from l p q r3 r2 show ?thesis by blast
qed

theorem band_crossing_lower_band_absent_witness:
  "length (blit_draws be_test blit_2048 (fst (lazyLoad be_test (pic_6000, state0 env_a3)))
             (state0 env_a3)) = 1 \<and>
   di_img (hd (blit_draws be_test blit_2048 (fst (lazyLoad be_test (pic_6000, state0 env_a3)))
                 (state0 env_a3))) = SheetImage sheet_a2 \<and>
   di_h (hd (blit_draws be_test blit_2048 (fst (lazyLoad be_test (pic_6000, state0 env_a3)))
               (state0 env_a3))) = hDst blit_2048 \<and>
   di_src_y (hd (blit_draws be_test blit_2048 (fst (lazyLoad be_test (pic_6000, state0 env_a3)))
                   (state0 env_a3))) = - 48 \<and>
   di_src_h (hd (blit_draws be_test blit_2048 (fst (lazyLoad be_test (pic_6000, state0 env_a3)))
                   (state0 env_a3))) = hSrc blit_2048"
proof -
  note t = band_crossing_lower_band_absent
  have l: "fst (lazyLoad be_test (pic_6000, state0 env_a3)) = pic_band3"
    using t by simp
  have q: "hSrc blit_2048 = 100" "hDst blit_2048 = 50"
    using t by blast+
  have m: "map di_img (blit_draws be_test blit_2048 pic_band3 (state0 env_a3)) = [SheetImage sheet_a2]"
    "map di_h (blit_draws be_test blit_2048 pic_band3 (state0 env_a3)) = [50]"
    "map di_src_y (blit_draws be_test blit_2048 pic_band3 (state0 env_a3)) = [- 48]"
    "map di_src_h (blit_draws be_test blit_2048 pic_band3 (state0 env_a3)) = [100]"
    using t by blast+
  obtain d where d: "blit_draws be_test blit_2048 pic_band3 (state0 env_a3) = [d]"
    using m(1) by auto
  show ?thesis
    unfolding l q using m unfolding d by simp
qed

section \<open>Composition and frames: proofs\<close>

lemma new_calls_append: "calls s' = calls s @ cs \<Longrightarrow> new_calls s s' = cs"
  by (simp add: new_calls_def)

lemma scene_draws_layers:
  "scene_draws (Some tg) (map (\<lambda>layer. C2D_DrawImage_Custom (f layer)) ls @ rest) =
     map (\<lambda>layer. (tg, f layer)) ls @ scene_draws (Some tg) rest"
  by (induction ls) simp_all

text \<open>
  Claim C2.  repaint inside a frame, with the screens not swapped and the editor branch not
  taken.  With a slider value of at most 0.05, or in single-layer mode, every layer is
  drawn on the top screen alone, from source column 0.  Otherwise the four layers are
  drawn on the top screen and again on the right-eye screen; layer \<open>i\<close> is taken from the
  source column multiplier \<open>i\<close> times the base shift times the slider value (cut to an
  integer) on the top screen and from its negative on the right-eye screen, and for layer
  2 that column is 0.  (The base shift of this source is the constant 0.)
\<close>

theorem repaint_targets:
  assumes "g_in_frame s" and "\<not> g_screen_swapped s"
    and "\<not> (LevelEditor s \<and> \<not> editorScreen_active s)"
  shows "(slider \<le> 5 / 100 \<or> s_single_layer_mode s \<longrightarrow>
           scene_draws None (new_calls s (repaint slider s)) =
             map (\<lambda>layer. (top_screen, layer_draw s layer (g_screen_phys_x s) 0))
                 (scene_layers s)) \<and>
         (\<not> (slider \<le> 5 / 100 \<or> s_single_layer_mode s) \<longrightarrow>
           scene_draws None (new_calls s (repaint slider s)) =
             map (\<lambda>layer. (top_screen, layer_draw s layer (g_screen_phys_x s)
                    (trunc_int (layer_multiplier ! layer * of_int shift * slider))))
                 [0, 1, 2, 3]
             @ map (\<lambda>layer. (right_screen, layer_draw s layer (g_screen_phys_x s)
                    (- trunc_int (layer_multiplier ! layer * of_int shift * slider))))
                 [0, 1, 2, 3] \<and>
           trunc_int (layer_multiplier ! 2 * of_int shift * slider) = 0)"
proof (cases "slider \<le> 5 / 100 \<or> s_single_layer_mode s")
  case True
  have "calls (repaint slider s) = calls s @
      ([C2D_ViewReset, C2D_TargetClear top_screen opaque_black, C2D_SceneBegin top_screen]
       @ map (\<lambda>layer. C2D_DrawImage_Custom (layer_draw s layer (g_screen_phys_x s) 0))
           (scene_layers s)
       @ [C3D_FrameEnd])"
    using assms True
    by (auto simp: repaint_def Let_def emit_def emits_def shift_def layer_draw_def
        scene_layers_def)
  from new_calls_append[OF this] True show ?thesis
    by (simp add: scene_draws_layers)
next
  case False
  have "calls (repaint slider s) = calls s @
      ([C2D_ViewReset, C2D_TargetClear top_screen opaque_black, C2D_SceneBegin top_screen]
       @ map (\<lambda>layer. C2D_DrawImage_Custom (layer_draw s layer (g_screen_phys_x s) 0))
           [0, 1, 2, 3]
       @ [C2D_TargetClear right_screen opaque_black, C2D_SceneBegin right_screen]
       @ map (\<lambda>layer. C2D_DrawImage_Custom (layer_draw s layer (g_screen_phys_x s) 0))
           [0, 1, 2, 3]
       @ [C3D_FrameEnd])"
    using assms False
    by (simp add: repaint_def Let_def emit_def emits_def shift_def shift_i_def layer_draw_def
        trunc_int_def)
  from new_calls_append[OF this] False show ?thesis
    by (simp add: shift_def layer_multiplier_def trunc_int_def)
qed

theorem repaint_targets_witness:
  "map fst (scene_draws None (new_calls state_in_frame (repaint 0 state_in_frame))) =
     [top_screen, top_screen, top_screen, top_screen] \<and>
   map (\<lambda>p. (fst p, di_img (snd p), di_src_x (snd p)))
     (scene_draws None (new_calls state_in_frame (repaint (3 / 10) state_in_frame))) =
     [(top_screen, LayerImage 0, 0), (top_screen, LayerImage 1, 0), (top_screen, LayerImage 2, 0),
      (top_screen, LayerImage 3, 0), (right_screen, LayerImage 0, 0),
      (right_screen, LayerImage 1, 0), (right_screen, LayerImage 2, 0),
      (right_screen, LayerImage 3, 0)]"
proof -
  have p: "g_in_frame state_in_frame" "\<not> g_screen_swapped state_in_frame"
    "\<not> (LevelEditor state_in_frame \<and> \<not> editorScreen_active state_in_frame)"
    "\<not> s_single_layer_mode state_in_frame"
    by (simp_all add: state_in_frame_def state0_def)
  from repaint_targets[OF p(1,2,3), of 0] repaint_targets[OF p(1,2,3), of "3 / 10"] p(4)
  show ?thesis
    by (simp add: scene_layers_def layer_draw_def shift_def trunc_int_def)
qed

subsection \<open>The frame flag and the frame counter\<close>

lemma same_frame_refl: "same_frame s s"
  by (simp add: same_frame_def)

lemma same_frame_trans: "same_frame s t \<Longrightarrow> same_frame t u \<Longrightarrow> same_frame s u"
  by (simp add: same_frame_def)

lemma same_frame_emit: "same_frame s (emit c s)" "same_frame s (emits cs s)"
  by (simp_all add: same_frame_def emit_def emits_def)

lemma same_frame_sheet_load: "same_frame s (snd (sheet_load be p s))"
  by (simp add: same_frame_def sheet_load_def emit_def split: prod.splits)

lemma same_frame_free: "same_frame s (free_texture_memory be s)" "same_frame s (sheet_free be sh s)"
  by (simp_all add: same_frame_def free_texture_memory_def sheet_free_def emit_def)

lemma same_frame_tryHard: "same_frame s (snd (s_tryHardToLoadC2D_SpriteSheet be p s))"
proof (cases "sheet_load be p s")
  case (Pair r s1)
  have 1: "same_frame s s1" using same_frame_sheet_load[of s be p] Pair by simp
  show ?thesis
  proof (cases r)
    case (Some sh)
    with Pair 1 show ?thesis by (simp add: s_tryHardToLoadC2D_SpriteSheet_def)
  next
    case None
    define s2 where "s2 = (if linearSpaceFree be (env s1) < 4000000 then free_texture_memory be s1 else s1)"
    have 2: "same_frame s1 s2" by (simp add: s2_def same_frame_free same_frame_refl)
    have "same_frame s2 (snd (sheet_load be p s2))" by (rule same_frame_sheet_load)
    with 1 2 have "same_frame s (snd (sheet_load be p s2))" by (blast intro: same_frame_trans)
    then show ?thesis using Pair None by (simp add: s_tryHardToLoadC2D_SpriteSheet_def s2_def)
  qed
qed

lemma same_frame_band2: "same_frame s (snd (lazyLoad_band2 be (t, s)))"
proof (cases "s_tryHardToLoadC2D_SpriteSheet be (l_path t @ ''1'') s")
  case (Pair r s1)
  have "same_frame s s1" using same_frame_tryHard[of s be "l_path t @ ''1''"] Pair by simp
  then show ?thesis using Pair
    by (cases r) (auto simp: lazyLoad_band2_def same_frame_refl same_frame_def emits_def)
qed

lemma same_frame_band3: "same_frame s (snd (lazyLoad_band3 be (t, s)))"
proof (cases "sheet_load be (l_path t @ ''2'') s")
  case (Pair r s1)
  have "same_frame s s1" using same_frame_sheet_load[of s be "l_path t @ ''2''"] Pair by simp
  then show ?thesis using Pair
    by (cases r) (auto simp: lazyLoad_band3_def same_frame_refl same_frame_def emits_def)
qed

lemma same_frame_low_memory: "same_frame s (low_memory_check be s)"
  by (simp add: same_frame_def low_memory_check_def free_texture_memory_def emit_def)

lemma same_frame_lazyLoad: "same_frame s (snd (lazyLoad be (t, s)))"
proof (cases "\<not> inited t \<or> \<not> l_lazyLoaded t \<or> d_texture t \<noteq> None")
  case True
  then show ?thesis by (auto simp: lazyLoad_def same_frame_refl)
next
  case False
  obtain r s1 where r: "s_tryHardToLoadC2D_SpriteSheet be (l_path t) s = (r, s1)"
    by (cases "s_tryHardToLoadC2D_SpriteSheet be (l_path t) s")
  have 1: "same_frame s s1" using same_frame_tryHard[of s be "l_path t"] r by simp
  show ?thesis
  proof (cases r)
    case None
    with False r 1 show ?thesis by (simp add: lazyLoad_def same_frame_def emits_def)
  next
    case (Some sh)
    obtain t2 s2 where b2: "lazyLoad_band2 be (s_loadTexture sh t, s1) = (t2, s2)"
      by (cases "lazyLoad_band2 be (s_loadTexture sh t, s1)")
    obtain t3 s3 where b3: "lazyLoad_band3 be (t2, s2) = (t3, s3)"
      by (cases "lazyLoad_band3 be (t2, s2)")
    have 2: "same_frame s1 s2" using same_frame_band2[of s1 be "s_loadTexture sh t"] b2 by simp
    have 3: "same_frame s2 s3" using same_frame_band3[of s2 be t2] b3 by simp
    have 4: "same_frame s3 (low_memory_check be (s3\<lparr>s_num_textures_loaded := s_num_textures_loaded s3 + 1\<rparr>))"
      using same_frame_low_memory[of "s3\<lparr>s_num_textures_loaded := s_num_textures_loaded s3 + 1\<rparr>" be]
      by (simp add: same_frame_def)
    have "snd (lazyLoad be (t, s)) = low_memory_check be (s3\<lparr>s_num_textures_loaded := s_num_textures_loaded s3 + 1\<rparr>)"
      using False r Some b2 b3 by (simp add: lazyLoad_def)
    with 1 2 3 4 show ?thesis by (simp add: same_frame_def)
  qed
qed

lemma same_frame_deleteTexture: "same_frame s (snd (deleteTexture be lz (t, s)))"
  by (simp add: deleteTexture_def same_frame_def sheet_free_def emit_def Let_def
      split: option.splits prod.splits)

lemma same_frame_lazyUnLoad: "same_frame s (snd (lazyUnLoad be (t, s)))"
  using same_frame_deleteTexture[of s be True t]
  by (simp add: lazyUnLoad_def same_frame_refl)

lemma same_frame_lazyLoadPicture: "same_frame s (snd (lazyLoadPicture be fs junk path s))"
proof -
  have "same_frame s (snd (lazyUnLoad be (lazyLoad be (t, emit c s))))" for t c
  proof -
    obtain t1 s1 where l: "lazyLoad be (t, emit c s) = (t1, s1)"
      by (cases "lazyLoad be (t, emit c s)")
    have "same_frame (emit c s) s1" using same_frame_lazyLoad[of "emit c s" be t] l by simp
    moreover have "same_frame s1 (snd (lazyUnLoad be (t1, s1)))" by (rule same_frame_lazyUnLoad)
    ultimately show ?thesis using l same_frame_emit(1)[of s c]
      by (simp add: same_frame_def)
  qed
  then show ?thesis
    by (simp add: lazyLoadPicture_def Let_def same_frame_refl split: option.splits
        del: list_update.simps)
qed

lemma same_frame_RenderTexture: "same_frame s (snd (minport_RenderTexturePrivate be b tx s))"
proof -
  obtain tx1 s1 where l:
    "(if d_texture tx = None \<and> l_lazyLoaded tx then lazyLoad be (tx, s) else (tx, s)) = (tx1, s1)"
    by (cases "if d_texture tx = None \<and> l_lazyLoaded tx then lazyLoad be (tx, s) else (tx, s)")
  have 1: "same_frame s s1"
    using l same_frame_lazyLoad[of s be tx] by (auto simp: same_frame_refl split: if_splits)
  show ?thesis
    using 1 l
    by (simp add: minport_RenderTexturePrivate_def same_frame_def emits_def same_frame_refl
        Let_def split: prod.splits del: auto_flip.simps)
qed

lemma same_frame_ApplyViewport: "same_frame s (minport_ApplyViewport be s)"
  by (simp add: minport_ApplyViewport_def same_frame_def emit_def emits_def Let_def
      split: option.splits)

lemma ensure_idle:
  "\<not> g_in_frame s \<Longrightarrow>
     s_ensureInFrame s = s\<lparr>calls := calls s @ frame_begin_calls s, g_in_frame := True\<rparr>"
  by (simp add: s_ensureInFrame_def emits_def)

lemma ensure_counter: "s_current_frame (s_ensureInFrame s) = s_current_frame s"
  by (simp add: s_ensureInFrame_def emits_def)


lemma idle_setTargetTexture:
  assumes "\<not> g_in_frame s"
  shows "calls (setTargetTexture s) = calls s @ frame_begin_calls s
           @ [C2D_SceneBegin (layer_target (if s_single_layer_mode s then 0 else 2)),
              C2D_ViewReset] \<and> g_in_frame (setTargetTexture s)"
  using assms by (simp add: setTargetTexture_def ensure_idle Let_def emit_def)

lemma idle_setTargetMainScreen:
  assumes "\<not> g_in_frame s"
  shows "calls (setTargetMainScreen s) = calls s @ frame_begin_calls s
           @ [C2D_TargetClear top_screen opaque_black, C2D_SceneBegin top_screen, C2D_ViewReset]
         \<and> g_in_frame (setTargetMainScreen s)"
  using assms by (simp add: setTargetMainScreen_def ensure_idle Let_def emit_def emits_def)

lemma idle_setTargetSubScreen:
  assumes "\<not> g_in_frame s"
  shows "calls (setTargetSubScreen s) = calls s @ frame_begin_calls s
           @ [C2D_TargetClear bottom_screen opaque_black, C2D_SceneBegin bottom_screen,
              C2D_ViewReset]
         \<and> g_in_frame (setTargetSubScreen s)"
  using assms by (simp add: setTargetSubScreen_def ensure_idle Let_def emit_def emits_def)

lemma ApplyViewport_calls: "\<exists>cs. calls (minport_ApplyViewport be s) = calls s @ cs"
  by (simp add: minport_ApplyViewport_def emit_def emits_def Let_def split: option.splits)

lemma idle_setTargetLayer:
  assumes "\<not> g_in_frame s"
  shows "take (length (frame_begin_calls s)) (new_calls s (setTargetLayer be layer s))
           = frame_begin_calls s \<and> g_in_frame (setTargetLayer be layer s)"
proof -
  define s1 where "s1 = (emit (C2D_SceneBegin
       (if \<not> s_single_layer_mode s then layer_target layer else layer_target 0))
       (s_ensureInFrame s))\<lparr>s_cur_target := Some
       (if \<not> s_single_layer_mode s then layer_target layer else layer_target 0)\<rparr>"
  have e: "setTargetLayer be layer s = minport_ApplyViewport be s1"
    using assms by (simp add: setTargetLayer_def Let_def s1_def ensure_idle)
  have c1: "calls s1 = calls s @ frame_begin_calls s @ [C2D_SceneBegin
       (if \<not> s_single_layer_mode s then layer_target layer else layer_target 0)]"
    using assms by (simp add: s1_def ensure_idle emit_def)
  have g1: "g_in_frame s1" using assms by (simp add: s1_def ensure_idle emit_def)
  from ApplyViewport_calls[of be s1] obtain cs where
    cs: "calls (minport_ApplyViewport be s1) = calls s1 @ cs" by blast
  have "g_in_frame (minport_ApplyViewport be s1)"
    using same_frame_ApplyViewport[of s1 be] g1 by (simp add: same_frame_def)
  then show ?thesis
    unfolding e by (simp add: new_calls_def cs c1)
qed

lemma repaint_idle: "\<not> g_in_frame s \<Longrightarrow> repaint slider s = s"
  by (simp add: repaint_def)

lemma repaint_in_frame:
  "g_in_frame s \<Longrightarrow>
     s_current_frame (repaint slider s) = s_current_frame s + 1 \<and> \<not> g_in_frame (repaint slider s)"
  by (simp add: repaint_def Let_def emit_def emits_def)

lemma counter_targets:
  "s_current_frame (setTargetTexture s) = s_current_frame s"
  "s_current_frame (setTargetScreen s) = s_current_frame s"
  "s_current_frame (setTargetMainScreen s) = s_current_frame s"
  "s_current_frame (setTargetSubScreen s) = s_current_frame s"
  "s_current_frame (clearBuffer s) = s_current_frame s"
  by (simp_all add: setTargetTexture_def setTargetScreen_def setTargetMainScreen_def
      setTargetSubScreen_def clearBuffer_def Let_def emit_def emits_def ensure_counter)

lemma counter_setTargetLayer: "s_current_frame (setTargetLayer be layer s) = s_current_frame s"
proof -
  have "s_current_frame (minport_ApplyViewport be u) = s_current_frame u" for u
    using same_frame_ApplyViewport[of u be] by (simp add: same_frame_def)
  then show ?thesis
    by (simp add: setTargetLayer_def Let_def emit_def ensure_counter)
qed

text \<open>
  Claim C6, as the code has it.  From Idle (frame flag false), the target selections
  setTargetTexture, setTargetMainScreen, setTargetSubScreen and setTargetLayer begin a
  frame first: they clear the composition layers in use (all four, or layer 0 alone in
  single-layer mode) and the bottom screen to transparent black and set the flag.
  setTargetScreen does nothing, and the drawing calls minport_RenderBoxFilled and
  minport_RenderTexturePrivate, like clearBuffer, leave the flag false.  repaint from Idle
  returns the state as it is.  repaint inside a frame advances the frame counter by one and
  clears the flag, and no other operation changes the counter.
\<close>

theorem frame_state_machine:
  "(\<not> g_in_frame s \<longrightarrow>
      calls (setTargetTexture s) = calls s @ frame_begin_calls s
        @ [C2D_SceneBegin (layer_target (if s_single_layer_mode s then 0 else 2)), C2D_ViewReset] \<and>
      calls (setTargetMainScreen s) = calls s @ frame_begin_calls s
        @ [C2D_TargetClear top_screen opaque_black, C2D_SceneBegin top_screen, C2D_ViewReset] \<and>
      calls (setTargetSubScreen s) = calls s @ frame_begin_calls s
        @ [C2D_TargetClear bottom_screen opaque_black, C2D_SceneBegin bottom_screen,
           C2D_ViewReset] \<and>
      take (length (frame_begin_calls s)) (new_calls s (setTargetLayer be layer s))
        = frame_begin_calls s \<and>
      g_in_frame (setTargetTexture s) \<and> g_in_frame (setTargetMainScreen s) \<and>
      g_in_frame (setTargetSubScreen s) \<and> g_in_frame (setTargetLayer be layer s) \<and>
      repaint slider s = s \<and>
      setTargetScreen s = s \<and>
      \<not> g_in_frame (minport_RenderBoxFilled x1 y1 x2 y2 c1 c2 c3 c4 s) \<and>
      \<not> g_in_frame (snd (minport_RenderTexturePrivate be b tx s)) \<and>
      \<not> g_in_frame (clearBuffer s)) \<and>
   (g_in_frame s \<longrightarrow>
      s_current_frame (repaint slider s) = s_current_frame s + 1 \<and>
      \<not> g_in_frame (repaint slider s)) \<and>
   s_current_frame (setTargetTexture s) = s_current_frame s \<and>
   s_current_frame (setTargetScreen s) = s_current_frame s \<and>
   s_current_frame (setTargetMainScreen s) = s_current_frame s \<and>
   s_current_frame (setTargetSubScreen s) = s_current_frame s \<and>
   s_current_frame (setTargetLayer be layer s) = s_current_frame s \<and>
   s_current_frame (clearBuffer s) = s_current_frame s \<and>
   s_current_frame (minport_ApplyViewport be s) = s_current_frame s \<and>
   s_current_frame (minport_RenderBoxFilled x1 y1 x2 y2 c1 c2 c3 c4 s) = s_current_frame s \<and>
   s_current_frame (snd (minport_RenderTexturePrivate be b tx s)) = s_current_frame s \<and>
   s_current_frame (snd (lazyLoad be (tx, s))) = s_current_frame s \<and>
   s_current_frame (snd (lazyUnLoad be (tx, s))) = s_current_frame s \<and>
   s_current_frame (snd (deleteTexture be lz (tx, s))) = s_current_frame s \<and>
   s_current_frame (snd (lazyLoadPicture be fs junk path s)) = s_current_frame s"
proof -
  have idle: "\<not> g_in_frame s \<longrightarrow>
      calls (setTargetTexture s) = calls s @ frame_begin_calls s
        @ [C2D_SceneBegin (layer_target (if s_single_layer_mode s then 0 else 2)), C2D_ViewReset] \<and>
      calls (setTargetMainScreen s) = calls s @ frame_begin_calls s
        @ [C2D_TargetClear top_screen opaque_black, C2D_SceneBegin top_screen, C2D_ViewReset] \<and>
      calls (setTargetSubScreen s) = calls s @ frame_begin_calls s
        @ [C2D_TargetClear bottom_screen opaque_black, C2D_SceneBegin bottom_screen,
           C2D_ViewReset] \<and>
      take (length (frame_begin_calls s)) (new_calls s (setTargetLayer be layer s))
        = frame_begin_calls s \<and>
      g_in_frame (setTargetTexture s) \<and> g_in_frame (setTargetMainScreen s) \<and>
      g_in_frame (setTargetSubScreen s) \<and> g_in_frame (setTargetLayer be layer s) \<and>
      repaint slider s = s \<and>
      setTargetScreen s = s \<and>
      \<not> g_in_frame (minport_RenderBoxFilled x1 y1 x2 y2 c1 c2 c3 c4 s) \<and>
      \<not> g_in_frame (snd (minport_RenderTexturePrivate be b tx s)) \<and>
      \<not> g_in_frame (clearBuffer s)"
  proof
    assume i: "\<not> g_in_frame s"
    have box: "\<not> g_in_frame (minport_RenderBoxFilled x1 y1 x2 y2 c1 c2 c3 c4 s)"
      using i by (simp add: minport_RenderBoxFilled_def emit_def)
    have tex: "\<not> g_in_frame (snd (minport_RenderTexturePrivate be b tx s))"
      using i same_frame_RenderTexture[of s be b tx] by (simp add: same_frame_def)
    have clr: "\<not> g_in_frame (clearBuffer s)"
      using i by (simp add: clearBuffer_def emits_def)
    have scr: "setTargetScreen s = s" by (simp add: setTargetScreen_def)
    from idle_setTargetTexture[OF i] idle_setTargetMainScreen[OF i] idle_setTargetSubScreen[OF i]
      idle_setTargetLayer[OF i, of be layer] repaint_idle[OF i, of slider] box tex clr scr
    show "calls (setTargetTexture s) = calls s @ frame_begin_calls s
        @ [C2D_SceneBegin (layer_target (if s_single_layer_mode s then 0 else 2)), C2D_ViewReset] \<and>
      calls (setTargetMainScreen s) = calls s @ frame_begin_calls s
        @ [C2D_TargetClear top_screen opaque_black, C2D_SceneBegin top_screen, C2D_ViewReset] \<and>
      calls (setTargetSubScreen s) = calls s @ frame_begin_calls s
        @ [C2D_TargetClear bottom_screen opaque_black, C2D_SceneBegin bottom_screen,
           C2D_ViewReset] \<and>
      take (length (frame_begin_calls s)) (new_calls s (setTargetLayer be layer s))
        = frame_begin_calls s \<and>
      g_in_frame (setTargetTexture s) \<and> g_in_frame (setTargetMainScreen s) \<and>
      g_in_frame (setTargetSubScreen s) \<and> g_in_frame (setTargetLayer be layer s) \<and>
      repaint slider s = s \<and>
      setTargetScreen s = s \<and>
      \<not> g_in_frame (minport_RenderBoxFilled x1 y1 x2 y2 c1 c2 c3 c4 s) \<and>
      \<not> g_in_frame (snd (minport_RenderTexturePrivate be b tx s)) \<and>
      \<not> g_in_frame (clearBuffer s)"
      by blast
  qed
  have inf: "g_in_frame s \<longrightarrow>
      s_current_frame (repaint slider s) = s_current_frame s + 1 \<and>
      \<not> g_in_frame (repaint slider s)"
    using repaint_in_frame[of s slider] by blast
  have c1: "s_current_frame (minport_ApplyViewport be s) = s_current_frame s"
    using same_frame_ApplyViewport[of s be] by (simp add: same_frame_def)
  have c2: "s_current_frame (minport_RenderBoxFilled x1 y1 x2 y2 c1 c2 c3 c4 s) = s_current_frame s"
    by (simp add: minport_RenderBoxFilled_def emit_def)
  have c3: "s_current_frame (snd (minport_RenderTexturePrivate be b tx s)) = s_current_frame s"
    using same_frame_RenderTexture[of s be b tx] by (simp add: same_frame_def)
  have c4: "s_current_frame (snd (lazyLoad be (tx, s))) = s_current_frame s"
    using same_frame_lazyLoad[of s be tx] by (simp add: same_frame_def)
  have c5: "s_current_frame (snd (lazyUnLoad be (tx, s))) = s_current_frame s"
    using same_frame_lazyUnLoad[of s be tx] by (simp add: same_frame_def)
  have c6: "s_current_frame (snd (deleteTexture be lz (tx, s))) = s_current_frame s"
    using same_frame_deleteTexture[of s be lz tx] by (simp add: same_frame_def)
  have c7: "s_current_frame (snd (lazyLoadPicture be fs junk path s)) = s_current_frame s"
    using same_frame_lazyLoadPicture[of s be fs junk path] by (simp add: same_frame_def)
  from idle inf counter_targets[of s] counter_setTargetLayer[of be layer s] c1 c2 c3 c4 c5 c6 c7
  show ?thesis by blast
qed

theorem frame_state_machine_witness:
  "calls (setTargetMainScreen (state0 env_a)) =
     [minport_initFrame, C3D_FrameBegin,
      C2D_TargetClear (layer_target 0) transparent_black,
      C2D_TargetClear (layer_target 1) transparent_black,
      C2D_TargetClear (layer_target 2) transparent_black,
      C2D_TargetClear (layer_target 3) transparent_black,
      C2D_TargetClear bottom_screen transparent_black,
      C2D_TargetClear top_screen opaque_black, C2D_SceneBegin top_screen, C2D_ViewReset] \<and>
   g_in_frame (setTargetMainScreen (state0 env_a)) \<and>
   repaint 0 (state0 env_a) = state0 env_a \<and>
   s_current_frame (repaint 0 state_in_frame) = 1 \<and>
   \<not> g_in_frame (repaint 0 state_in_frame)"
proof -
  have i: "\<not> g_in_frame (state0 env_a)" "g_in_frame state_in_frame"
    "s_current_frame state_in_frame = 0" "calls (state0 env_a) = []"
    "frame_begin_calls (state0 env_a) = [minport_initFrame, C3D_FrameBegin,
      C2D_TargetClear (layer_target 0) transparent_black,
      C2D_TargetClear (layer_target 1) transparent_black,
      C2D_TargetClear (layer_target 2) transparent_black,
      C2D_TargetClear (layer_target 3) transparent_black,
      C2D_TargetClear bottom_screen transparent_black]"
    by (simp_all add: state_in_frame_def state0_def frame_begin_calls_def scene_layers_def)
  from frame_state_machine[of "state0 env_a" be_test 0 0]
       frame_state_machine[of state_in_frame be_test 0 0] i
  show ?thesis by simp
qed

text \<open>
  The claim as stated fails: from Idle, a filled box and a sprite blit are passed to the
  backend with no frame begun and the flag still false, and setTargetScreen makes no call
  at all.
\<close>

theorem draw_outside_frame_counterexample:
  "\<not> g_in_frame (state0 env_a) \<and>
   calls (minport_RenderBoxFilled 0 0 8 8 255 255 255 255 (state0 env_a)) =
     [C2D_DrawRectSolid 0 0 0 8 8 (C2D_Color32 255 255 255 255)] \<and>
   \<not> g_in_frame (minport_RenderBoxFilled 0 0 8 8 255 255 255 255 (state0 env_a)) \<and>
   calls (snd (minport_RenderTexturePrivate be_test (blit_at 0) pic_64 (state0 env_a))) =
     [C2D_DrawImage_Custom (draw_args (SheetImage sheet_a) (blit_at 0))] \<and>
   \<not> g_in_frame (snd (minport_RenderTexturePrivate be_test (blit_at 0) pic_64 (state0 env_a))) \<and>
   calls (setTargetScreen (state0 env_a)) = [] \<and>
   \<not> g_in_frame (setTargetScreen (state0 env_a))"
proof -
  have a0: "auto_flip 0 64 0 = (0, 0)" by simp
  have b0: "(blit_at 0)\<lparr>ySrc := 0, flip := 0\<rparr> = blit_at 0" by (simp add: blit_at_def)
  have t: "minport_RenderTexturePrivate be_test (blit_at 0) pic_64 (state0 env_a) =
     (pic_64, (state0 env_a)\<lparr>calls :=
        [C2D_DrawImage_Custom (draw_args (SheetImage sheet_a) (blit_at 0))]\<rparr>)"
    unfolding minport_RenderTexturePrivate_def
    by (simp add: a0 emits_def pic_64_def pic_resident_def pic_lazy_def StdPicture_new_def
        state0_def band_draws_def blit_at_def del: auto_flip.simps)
  have w: "s32 8 = 8"
    unfolding s32_def by (rule signed_take_bit_int_eq_self) simp_all
  show ?thesis
    unfolding t
    by (simp add: minport_RenderBoxFilled_def setTargetScreen_def emit_def state0_def w)
qed

end
